theory Spec2Isabelle
  imports Main "HOL-Library.Word"
begin

section \<open>Data model of the decision task handler\<close>

text \<open>
  Shallow embedding of \<^verbatim>\<open>service/history/decisionTaskHandler.go\<close>.  The handler
  struct becomes a record that is passed through every function and returned updated;
  a Go \<^verbatim>\<open>error\<close> return becomes an \<open>error option\<close> (\<open>None\<close> is \<^verbatim>\<open>nil\<close>).
  The collaborators whose implementation lives outside the handler (mutable state,
  attribute validator, blob size checker, domain cache, timer builder, uuid generator)
  are parameters, collected in the record \<open>env\<close>.
\<close>

type_synonym int64 = "64 word"
type_synonym int32 = "32 word"
type_synonym bytes = "8 word list"

text \<open>\<^verbatim>\<open>time.Duration\<close>: a count of nanoseconds.\<close>
type_synonym Duration = int

text \<open>
  The three kinds of error the handler tells apart with \<^verbatim>\<open>err.(type)\<close>, and the
  run-time panic of a nil pointer dereference, which ends the handling like an error.
\<close>
datatype error =
    BadRequestError string
  | InternalServiceError string
  | OtherError string
  | NilPointerPanic

fun isBadRequestError :: "error \<Rightarrow> bool" where
  "isBadRequestError (BadRequestError m) = True"
| "isBadRequestError e = False"

datatype DecisionTaskFailedCause =
    UnhandledDecision
  | BadScheduleActivityAttributes
  | BadRequestCancelActivityAttributes
  | BadStartTimerAttributes
  | BadCancelTimerAttributes
  | BadRecordMarkerAttributes
  | BadCompleteWorkflowExecutionAttributes
  | BadFailWorkflowExecutionAttributes
  | BadCancelWorkflowExecutionAttributes
  | BadRequestCancelExternalWorkflowExecutionAttributes
  | BadContinueAsNewAttributes
  | BadStartChildExecutionAttributes
  | BadSignalWorkflowExecutionAttributes
  | StartTimerDuplicateID
  | ScheduleActivityDuplicateID

datatype ContinueAsNewInitiator = Decider | RetryPolicy | CronSchedule

text \<open>Counters of the metrics client that the handler increments.\<close>
datatype metric =
    DecisionTypeScheduleActivityCounter
  | DecisionTypeCompleteWorkflowCounter
  | DecisionTypeFailWorkflowCounter
  | DecisionTypeCancelWorkflowCounter
  | DecisionTypeStartTimerCounter
  | DecisionTypeCancelActivityCounter
  | DecisionTypeCancelTimerCounter
  | DecisionTypeRecordMarkerCounter
  | DecisionTypeCancelExternalWorkflowCounter
  | DecisionTypeSignalExternalWorkflowCounter
  | DecisionTypeContinueAsNewCounter
  | DecisionTypeChildWorkflowCounter
  | MultipleCompletionDecisionsCounter

subsection \<open>Thrift structures\<close>

text \<open>
  A pointer field is an \<open>option\<close>; the generated getters are nil-safe and return the
  zero value when the receiver or the field is nil.
\<close>

definition nilsafe :: "('a \<Rightarrow> 'b option) \<Rightarrow> 'b \<Rightarrow> 'a option \<Rightarrow> 'b" where
  "nilsafe f z p = (case p of None \<Rightarrow> z | Some a \<Rightarrow> (case f a of None \<Rightarrow> z | Some v \<Rightarrow> v))"

record TaskList =
  tl_Name :: "string option"

record WorkflowType =
  wt_Name :: "string option"

record RetryPolicyAttributes =
  rp_InitialIntervalInSeconds :: "int32 option"
  rp_MaximumAttempts :: "int32 option"

record WorkflowExecution =
  we_WorkflowId :: "string option"
  we_RunId :: "string option"

record ScheduleActivityTaskDecisionAttributes =
  sa_ActivityId :: "string option"
  sa_Domain :: "string option"
  sa_TaskList :: "TaskList option"
  sa_Input :: bytes

record RequestCancelActivityTaskDecisionAttributes =
  rca_ActivityId :: "string option"

record StartTimerDecisionAttributes =
  st_TimerId :: "string option"
  st_StartToFireTimeoutSeconds :: "int64 option"

record CancelTimerDecisionAttributes =
  ct_TimerId :: "string option"

record CompleteWorkflowExecutionDecisionAttributes =
  cw_Result :: bytes

record FailWorkflowExecutionDecisionAttributes =
  fw_Reason :: "string option"
  fw_Details :: bytes

record CancelWorkflowExecutionDecisionAttributes =
  xw_Details :: bytes

record RecordMarkerDecisionAttributes =
  rm_MarkerName :: "string option"
  rm_Details :: bytes

record RequestCancelExternalWorkflowExecutionDecisionAttributes =
  rce_Domain :: "string option"
  rce_WorkflowId :: "string option"
  rce_RunId :: "string option"
  rce_Control :: bytes
  rce_ChildWorkflowOnly :: "bool option"

record SignalExternalWorkflowExecutionDecisionAttributes =
  se_Domain :: "string option"
  se_Execution :: "WorkflowExecution option"
  se_SignalName :: "string option"
  se_Input :: bytes
  se_Control :: bytes
  se_ChildWorkflowOnly :: "bool option"

record ContinueAsNewWorkflowExecutionDecisionAttributes =
  can_WorkflowType :: "WorkflowType option"
  can_TaskList :: "TaskList option"
  can_RetryPolicy :: "RetryPolicyAttributes option"
  can_Input :: bytes
  can_ExecutionStartToCloseTimeoutSeconds :: "int32 option"
  can_TaskStartToCloseTimeoutSeconds :: "int32 option"
  can_CronSchedule :: "string option"
  can_BackoffStartIntervalInSeconds :: "int32 option"
  can_Initiator :: "ContinueAsNewInitiator option"
  can_FailureReason :: "string option"
  can_FailureDetails :: bytes
  can_LastCompletionResult :: bytes

record StartChildWorkflowExecutionDecisionAttributes =
  sc_Domain :: "string option"
  sc_WorkflowId :: "string option"
  sc_Input :: bytes

record WorkflowExecutionStartedEventAttributes =
  ws_WorkflowType :: "WorkflowType option"
  ws_ParentWorkflowDomain :: "string option"
  ws_TaskList :: "TaskList option"
  ws_Input :: bytes
  ws_ExecutionStartToCloseTimeoutSeconds :: "int32 option"
  ws_TaskStartToCloseTimeoutSeconds :: "int32 option"
  ws_LastCompletionResult :: bytes
  ws_RetryPolicy :: "RetryPolicyAttributes option"
  ws_CronSchedule :: "string option"

record HistoryEvent =
  he_EventId :: int64
  he_WorkflowExecutionStartedEventAttributes :: "WorkflowExecutionStartedEventAttributes option"

text \<open>
  A decision: the decision type together with the attribute pointer that
  \<^verbatim>\<open>handleDecision\<close> reads for that type (\<open>None\<close> is a nil pointer).  A type outside
  the twelve known ones carries its printed form.
\<close>
datatype Decision =
    ScheduleActivityTask "ScheduleActivityTaskDecisionAttributes option"
  | CompleteWorkflowExecution "CompleteWorkflowExecutionDecisionAttributes option"
  | FailWorkflowExecution "FailWorkflowExecutionDecisionAttributes option"
  | CancelWorkflowExecution "CancelWorkflowExecutionDecisionAttributes option"
  | StartTimer "StartTimerDecisionAttributes option"
  | RequestCancelActivityTask "RequestCancelActivityTaskDecisionAttributes option"
  | CancelTimer "CancelTimerDecisionAttributes option"
  | RecordMarker "RecordMarkerDecisionAttributes option"
  | RequestCancelExternalWorkflowExecution "RequestCancelExternalWorkflowExecutionDecisionAttributes option"
  | SignalExternalWorkflowExecution "SignalExternalWorkflowExecutionDecisionAttributes option"
  | ContinueAsNewWorkflowExecution "ContinueAsNewWorkflowExecutionDecisionAttributes option"
  | StartChildWorkflowExecution "StartChildWorkflowExecutionDecisionAttributes option"
  | UnknownDecisionType string

subsection \<open>Persistence and cache structures\<close>

record WorkflowExecutionInfo =
  ei_DomainID :: string
  ei_WorkflowTimeout :: int32
  ei_ParentDomainID :: string

record ActivityInfo =
  ai_ScheduleID :: int64
  ai_StartedID :: int64

record TimerInfo =
  ti_TimerID :: string

record DomainInfo =
  di_ID :: string
  di_Name :: string

record DomainCacheEntry =
  dce_info :: DomainInfo

text \<open>The transfer tasks the handler creates, with the fields in the order of the source.\<close>
datatype Task =
    ActivityTask (at_DomainID: string) (at_TaskList: string) (at_ScheduleID: int64)
  | CancelExecutionTask string string string bool int64
  | StartChildExecutionTask string string int64
  | SignalExecutionTask string string string bool int64


section \<open>Collaborators\<close>

subsection \<open>Mutable state\<close>

text \<open>
  The mutable state is an interface whose implementation is outside the handler.  It is
  modelled as an implementation state \<open>impl\<close> of an arbitrary type, on which the
  interface methods are parameters, together with the journal \<open>applied\<close> of the event
  applications that succeeded, each with the arguments of the call and the event that the
  method returned.  The journal is what the claims about appended events are stated on.
\<close>

datatype 'ms Applied =
    ActivityTaskScheduled int64 "ScheduleActivityTaskDecisionAttributes option" HistoryEvent
  | ActivityTaskCancelRequested int64 string string HistoryEvent
  | ActivityTaskCanceled int64 int64 int64 bytes string HistoryEvent
  | RequestCancelActivityTaskFailed int64 string string HistoryEvent
  | TimerStarted int64 "StartTimerDecisionAttributes option" HistoryEvent
  | TimerCanceled int64 "CancelTimerDecisionAttributes option" string HistoryEvent
  | CancelTimerFailed int64 "CancelTimerDecisionAttributes option" string HistoryEvent
  | WorkflowExecutionCompleted int64 "CompleteWorkflowExecutionDecisionAttributes option" HistoryEvent
  | WorkflowExecutionFailed int64 "FailWorkflowExecutionDecisionAttributes option" HistoryEvent
  | WorkflowExecutionCanceled int64 "CancelWorkflowExecutionDecisionAttributes option" HistoryEvent
  | MarkerRecorded int64 "RecordMarkerDecisionAttributes option" HistoryEvent
  | RequestCancelExternalWorkflowExecutionInitiated int64 string
      "RequestCancelExternalWorkflowExecutionDecisionAttributes option" HistoryEvent
  | SignalExternalWorkflowExecutionInitiated int64 string
      "SignalExternalWorkflowExecutionDecisionAttributes option" HistoryEvent
  | StartChildWorkflowExecutionInitiated int64 string
      "StartChildWorkflowExecutionDecisionAttributes option" HistoryEvent
  | WorkflowExecutionContinuedAsNew int64 int64 DomainCacheEntry string
      "ContinueAsNewWorkflowExecutionDecisionAttributes option" int32 HistoryEvent 'ms
  | WorkflowExecutionTerminated string string HistoryEvent

record 'ms mutableState =
  impl :: 'ms
  applied :: "'ms Applied list"

text \<open>The inspection methods of the interface.\<close>
record 'ms msGetters =
  ms_GetExecutionInfo :: "'ms \<Rightarrow> WorkflowExecutionInfo"
  ms_HasBufferedEvents :: "'ms \<Rightarrow> bool"
  ms_IsWorkflowExecutionRunning :: "'ms \<Rightarrow> bool"
  ms_HasParentExecution :: "'ms \<Rightarrow> bool"
  ms_GetStartEvent :: "'ms \<Rightarrow> HistoryEvent option"
  ms_GetCronBackoffDuration :: "'ms \<Rightarrow> Duration"
  ms_GetRetryBackoffDuration :: "string \<Rightarrow> 'ms \<Rightarrow> Duration"

text \<open>
  The event application methods.  Each takes the arguments of the Go method and the
  implementation state, and returns the error or the results together with the state it
  leaves behind (also when it fails).
\<close>
record 'ms msMutators =
  ms_AddActivityTaskScheduledEvent ::
    "int64 \<Rightarrow> ScheduleActivityTaskDecisionAttributes option \<Rightarrow> 'ms
      \<Rightarrow> (error + HistoryEvent \<times> ActivityInfo) \<times> 'ms"
  ms_AddActivityTaskCancelRequestedEvent ::
    "int64 \<Rightarrow> string \<Rightarrow> string \<Rightarrow> 'ms \<Rightarrow> (error + HistoryEvent \<times> ActivityInfo) \<times> 'ms"
  ms_AddActivityTaskCanceledEvent ::
    "int64 \<Rightarrow> int64 \<Rightarrow> int64 \<Rightarrow> bytes \<Rightarrow> string \<Rightarrow> 'ms \<Rightarrow> (error + HistoryEvent) \<times> 'ms"
  ms_AddRequestCancelActivityTaskFailedEvent ::
    "int64 \<Rightarrow> string \<Rightarrow> string \<Rightarrow> 'ms \<Rightarrow> (error + HistoryEvent) \<times> 'ms"
  ms_AddTimerStartedEvent ::
    "int64 \<Rightarrow> StartTimerDecisionAttributes option \<Rightarrow> 'ms
      \<Rightarrow> (error + HistoryEvent \<times> TimerInfo) \<times> 'ms"
  ms_AddTimerCanceledEvent ::
    "int64 \<Rightarrow> CancelTimerDecisionAttributes option \<Rightarrow> string \<Rightarrow> 'ms
      \<Rightarrow> (error + HistoryEvent) \<times> 'ms"
  ms_AddCancelTimerFailedEvent ::
    "int64 \<Rightarrow> CancelTimerDecisionAttributes option \<Rightarrow> string \<Rightarrow> 'ms
      \<Rightarrow> (error + HistoryEvent) \<times> 'ms"
  ms_AddCompletedWorkflowEvent ::
    "int64 \<Rightarrow> CompleteWorkflowExecutionDecisionAttributes option \<Rightarrow> 'ms
      \<Rightarrow> (error + HistoryEvent) \<times> 'ms"
  ms_AddFailWorkflowEvent ::
    "int64 \<Rightarrow> FailWorkflowExecutionDecisionAttributes option \<Rightarrow> 'ms
      \<Rightarrow> (error + HistoryEvent) \<times> 'ms"
  ms_AddWorkflowExecutionCanceledEvent ::
    "int64 \<Rightarrow> CancelWorkflowExecutionDecisionAttributes option \<Rightarrow> 'ms
      \<Rightarrow> (error + HistoryEvent) \<times> 'ms"
  ms_AddRecordMarkerEvent ::
    "int64 \<Rightarrow> RecordMarkerDecisionAttributes option \<Rightarrow> 'ms \<Rightarrow> (error + HistoryEvent) \<times> 'ms"
  ms_AddRequestCancelExternalWorkflowExecutionInitiatedEvent ::
    "int64 \<Rightarrow> string \<Rightarrow> RequestCancelExternalWorkflowExecutionDecisionAttributes option \<Rightarrow> 'ms
      \<Rightarrow> (error + HistoryEvent) \<times> 'ms"
  ms_AddSignalExternalWorkflowExecutionInitiatedEvent ::
    "int64 \<Rightarrow> string \<Rightarrow> SignalExternalWorkflowExecutionDecisionAttributes option \<Rightarrow> 'ms
      \<Rightarrow> (error + HistoryEvent) \<times> 'ms"
  ms_AddStartChildWorkflowExecutionInitiatedEvent ::
    "int64 \<Rightarrow> string \<Rightarrow> StartChildWorkflowExecutionDecisionAttributes option \<Rightarrow> 'ms
      \<Rightarrow> (error + HistoryEvent) \<times> 'ms"
  ms_AddContinueAsNewEvent ::
    "int64 \<Rightarrow> int64 \<Rightarrow> DomainCacheEntry \<Rightarrow> string
      \<Rightarrow> ContinueAsNewWorkflowExecutionDecisionAttributes option \<Rightarrow> int32 \<Rightarrow> 'ms
      \<Rightarrow> (error + HistoryEvent \<times> 'ms) \<times> 'ms"

subsection \<open>Attribute validator\<close>

text \<open>
  Modelled from the spec: the validator is not part of the sources; the specification
  describes its methods as pure functions that return valid, a BadRequest or another
  error.  Here \<open>None\<close> is valid.
\<close>
record decisionAttrValidator =
  validateActivityScheduleAttributes ::
    "string \<Rightarrow> string \<Rightarrow> ScheduleActivityTaskDecisionAttributes option \<Rightarrow> int32 \<Rightarrow> error option"
  validateActivityCancelAttributes ::
    "RequestCancelActivityTaskDecisionAttributes option \<Rightarrow> error option"
  validateTimerScheduleAttributes :: "StartTimerDecisionAttributes option \<Rightarrow> error option"
  validateTimerCancelAttributes :: "CancelTimerDecisionAttributes option \<Rightarrow> error option"
  validateCompleteWorkflowExecutionAttributes ::
    "CompleteWorkflowExecutionDecisionAttributes option \<Rightarrow> error option"
  validateFailWorkflowExecutionAttributes ::
    "FailWorkflowExecutionDecisionAttributes option \<Rightarrow> error option"
  validateCancelWorkflowExecutionAttributes ::
    "CancelWorkflowExecutionDecisionAttributes option \<Rightarrow> error option"
  validateCancelExternalWorkflowExecutionAttributes ::
    "string \<Rightarrow> string \<Rightarrow> RequestCancelExternalWorkflowExecutionDecisionAttributes option
      \<Rightarrow> error option"
  validateRecordMarkerAttributes :: "RecordMarkerDecisionAttributes option \<Rightarrow> error option"
  validateContinueAsNewWorkflowExecutionAttributes ::
    "ContinueAsNewWorkflowExecutionDecisionAttributes option \<Rightarrow> WorkflowExecutionInfo
      \<Rightarrow> error option"
  validateStartChildExecutionAttributes ::
    "string \<Rightarrow> string \<Rightarrow> StartChildWorkflowExecutionDecisionAttributes option
      \<Rightarrow> WorkflowExecutionInfo \<Rightarrow> error option"
  validateSignalExternalWorkflowExecutionAttributes ::
    "string \<Rightarrow> string \<Rightarrow> SignalExternalWorkflowExecutionDecisionAttributes option
      \<Rightarrow> error option"

subsection \<open>The environment of a handler\<close>

text \<open>
  \<^item> \<open>failWorkflowIfBlobSizeExceedsLimit\<close> is the method of the blob size checker; the
    checker holds the same mutable state as the handler, so the method takes and returns it;
  \<^item> \<open>uuid_New k\<close> is the value of the \<open>k\<close>-th call of \<^verbatim>\<open>uuid.New()\<close> in a run;
  \<^item> \<open>Error\<close> is the \<^verbatim>\<open>Error()\<close> method of the error values;
  \<^item> \<open>NoBackoff\<close>, \<open>EmptyEventID\<close> and the two cancellation messages are constants
    declared outside the handler.
\<close>
record ('ms, 'tb) env =
  attrValidator :: decisionAttrValidator
  failWorkflowIfBlobSizeExceedsLimit ::
    "bytes \<Rightarrow> string \<Rightarrow> 'ms mutableState \<Rightarrow> (bool \<times> error option) \<times> 'ms mutableState"
  getters :: "'ms msGetters"
  mutators :: "'ms msMutators"
  domainCache_GetDomain :: "string \<Rightarrow> error + DomainCacheEntry"
  domainCache_GetDomainByID :: "string \<Rightarrow> error + DomainCacheEntry"
  timerBuilderProvider :: 'tb
  AddUserTimer :: "TimerInfo \<Rightarrow> 'ms \<Rightarrow> 'tb \<Rightarrow> 'tb"
  loadUserTimers :: "'ms \<Rightarrow> 'tb \<Rightarrow> 'tb"
  uuid_New :: "nat \<Rightarrow> string"
  Error :: "error \<Rightarrow> string"
  NoBackoff :: Duration
  EmptyEventID :: int64
  activityCancellationMsgActivityIDUnknown :: string
  activityCancellationMsgActivityNotStarted :: bytes

section \<open>The handler\<close>

text \<open>
  The struct \<^verbatim>\<open>decisionTaskHandlerImpl\<close>.  The validator, the size checker, the domain
  cache and the timer builder provider are read-only and live in \<open>env\<close>.  The metrics client
  and the logger are the lists of what was sent to them, and \<open>uuidsDrawn\<close> counts the
  calls of \<^verbatim>\<open>uuid.New()\<close>.
\<close>
record ('ms, 'tb) decisionTaskHandlerImpl =
  identity :: string
  decisionTaskCompletedID :: int64
  eventStoreVersion :: int32
  domainEntry :: DomainCacheEntry
  hasUnhandledEventsBeforeDecisions :: bool
  timerBuilder :: 'tb
  transferTasks :: "Task list"
  timerTasks :: "Task list"
  failDecision :: bool
  failDecisionCause :: "DecisionTaskFailedCause option"
  failMessage :: "string option"
  activityNotStartedCancelled :: bool
  continueAsNewBuilder :: "'ms option"
  stopProcessing :: bool
  mutableState :: "'ms mutableState"
  metricsClient :: "metric list"
  logger :: "(string \<times> string) list"
  uuidsDrawn :: nat

type_synonym ('ms, 'tb) outcome = "('ms, 'tb) decisionTaskHandlerImpl \<times> error option"

subsection \<open>Calls on the mutable state\<close>

definition GetExecutionInfo :: "('ms, 'tb) env \<Rightarrow> 'ms mutableState \<Rightarrow> WorkflowExecutionInfo" where
  "GetExecutionInfo env m = ms_GetExecutionInfo (getters env) (impl m)"

definition HasBufferedEvents :: "('ms, 'tb) env \<Rightarrow> 'ms mutableState \<Rightarrow> bool" where
  "HasBufferedEvents env m = ms_HasBufferedEvents (getters env) (impl m)"

definition IsWorkflowExecutionRunning :: "('ms, 'tb) env \<Rightarrow> 'ms mutableState \<Rightarrow> bool" where
  "IsWorkflowExecutionRunning env m = ms_IsWorkflowExecutionRunning (getters env) (impl m)"

definition HasParentExecution :: "('ms, 'tb) env \<Rightarrow> 'ms mutableState \<Rightarrow> bool" where
  "HasParentExecution env m = ms_HasParentExecution (getters env) (impl m)"

definition GetStartEvent :: "('ms, 'tb) env \<Rightarrow> 'ms mutableState \<Rightarrow> HistoryEvent option" where
  "GetStartEvent env m = ms_GetStartEvent (getters env) (impl m)"

definition GetCronBackoffDuration :: "('ms, 'tb) env \<Rightarrow> 'ms mutableState \<Rightarrow> Duration" where
  "GetCronBackoffDuration env m = ms_GetCronBackoffDuration (getters env) (impl m)"

definition GetRetryBackoffDuration :: "('ms, 'tb) env \<Rightarrow> string \<Rightarrow> 'ms mutableState \<Rightarrow> Duration" where
  "GetRetryBackoffDuration env reason m = ms_GetRetryBackoffDuration (getters env) reason (impl m)"

text \<open>
  An event application runs the method on the implementation state and, when it
  succeeds, adds its entry to the journal.
\<close>
definition applyEvent ::
  "('ms \<Rightarrow> (error + 'r) \<times> 'ms) \<Rightarrow> ('r \<Rightarrow> 'ms Applied) \<Rightarrow> 'ms mutableState
    \<Rightarrow> (error + 'r) \<times> 'ms mutableState" where
  "applyEvent f entry m =
     (case f (impl m) of (res, s) \<Rightarrow>
        (case res of
           Inl err \<Rightarrow> (Inl err, m\<lparr>impl := s\<rparr>)
         | Inr r \<Rightarrow> (Inr r, \<lparr>impl = s, applied = applied m @ [entry r]\<rparr>)))"

definition AddActivityTaskScheduledEvent where
  "AddActivityTaskScheduledEvent env cid attr =
     applyEvent (ms_AddActivityTaskScheduledEvent (mutators env) cid attr)
       (\<lambda>(ev, ai). ActivityTaskScheduled cid attr ev)"

definition AddActivityTaskCancelRequestedEvent where
  "AddActivityTaskCancelRequestedEvent env cid activityID ident =
     applyEvent (ms_AddActivityTaskCancelRequestedEvent (mutators env) cid activityID ident)
       (\<lambda>(ev, ai). ActivityTaskCancelRequested cid activityID ident ev)"

definition AddActivityTaskCanceledEvent where
  "AddActivityTaskCanceledEvent env scheduleID startedID latestCancelRequestedID details ident =
     applyEvent (ms_AddActivityTaskCanceledEvent (mutators env) scheduleID startedID
         latestCancelRequestedID details ident)
       (ActivityTaskCanceled scheduleID startedID latestCancelRequestedID details ident)"

definition AddRequestCancelActivityTaskFailedEvent where
  "AddRequestCancelActivityTaskFailedEvent env cid activityID cause =
     applyEvent (ms_AddRequestCancelActivityTaskFailedEvent (mutators env) cid activityID cause)
       (RequestCancelActivityTaskFailed cid activityID cause)"

definition AddTimerStartedEvent where
  "AddTimerStartedEvent env cid attr =
     applyEvent (ms_AddTimerStartedEvent (mutators env) cid attr)
       (\<lambda>(ev, ti). TimerStarted cid attr ev)"

definition AddTimerCanceledEvent where
  "AddTimerCanceledEvent env cid attr ident =
     applyEvent (ms_AddTimerCanceledEvent (mutators env) cid attr ident)
       (TimerCanceled cid attr ident)"

definition AddCancelTimerFailedEvent where
  "AddCancelTimerFailedEvent env cid attr ident =
     applyEvent (ms_AddCancelTimerFailedEvent (mutators env) cid attr ident)
       (CancelTimerFailed cid attr ident)"

definition AddCompletedWorkflowEvent where
  "AddCompletedWorkflowEvent env cid attr =
     applyEvent (ms_AddCompletedWorkflowEvent (mutators env) cid attr)
       (WorkflowExecutionCompleted cid attr)"

definition AddFailWorkflowEvent where
  "AddFailWorkflowEvent env cid attr =
     applyEvent (ms_AddFailWorkflowEvent (mutators env) cid attr)
       (WorkflowExecutionFailed cid attr)"

definition AddWorkflowExecutionCanceledEvent where
  "AddWorkflowExecutionCanceledEvent env cid attr =
     applyEvent (ms_AddWorkflowExecutionCanceledEvent (mutators env) cid attr)
       (WorkflowExecutionCanceled cid attr)"

definition AddRecordMarkerEvent where
  "AddRecordMarkerEvent env cid attr =
     applyEvent (ms_AddRecordMarkerEvent (mutators env) cid attr)
       (MarkerRecorded cid attr)"

definition AddRequestCancelExternalWorkflowExecutionInitiatedEvent where
  "AddRequestCancelExternalWorkflowExecutionInitiatedEvent env cid cancelRequestID attr =
     applyEvent (ms_AddRequestCancelExternalWorkflowExecutionInitiatedEvent (mutators env) cid
         cancelRequestID attr)
       (RequestCancelExternalWorkflowExecutionInitiated cid cancelRequestID attr)"

definition AddSignalExternalWorkflowExecutionInitiatedEvent where
  "AddSignalExternalWorkflowExecutionInitiatedEvent env cid signalRequestID attr =
     applyEvent (ms_AddSignalExternalWorkflowExecutionInitiatedEvent (mutators env) cid
         signalRequestID attr)
       (SignalExternalWorkflowExecutionInitiated cid signalRequestID attr)"

definition AddStartChildWorkflowExecutionInitiatedEvent where
  "AddStartChildWorkflowExecutionInitiatedEvent env cid requestID attr =
     applyEvent (ms_AddStartChildWorkflowExecutionInitiatedEvent (mutators env) cid requestID attr)
       (StartChildWorkflowExecutionInitiated cid requestID attr)"

definition AddContinueAsNewEvent where
  "AddContinueAsNewEvent env firstEventID cid domEntry parentDomainName attr esv =
     applyEvent (ms_AddContinueAsNewEvent (mutators env) firstEventID cid domEntry
         parentDomainName attr esv)
       (\<lambda>(ev, newStateBuilder).
          WorkflowExecutionContinuedAsNew firstEventID cid domEntry parentDomainName attr esv ev
            newStateBuilder)"

subsection \<open>Small steps shared by the handlers\<close>

definition IncCounter ::
  "metric \<Rightarrow> ('ms, 'tb) decisionTaskHandlerImpl \<Rightarrow> ('ms, 'tb) decisionTaskHandlerImpl" where
  "IncCounter c handler = handler\<lparr>metricsClient := metricsClient handler @ [c]\<rparr>"

definition Warn ::
  "string \<Rightarrow> string \<Rightarrow> ('ms, 'tb) decisionTaskHandlerImpl \<Rightarrow> ('ms, 'tb) decisionTaskHandlerImpl" where
  "Warn msg decisionType handler = handler\<lparr>logger := logger handler @ [(msg, decisionType)]\<rparr>"

text \<open>
  \<^verbatim>\<open>int32(d.Seconds())\<close>: the whole seconds of a duration, truncated towards zero and cut
  to 32 bits (the rounding of the intermediate float is not modelled).
\<close>
definition Seconds_int32 :: "Duration \<Rightarrow> int32" where
  "Seconds_int32 d =
     word_of_int (if 0 \<le> d then d div 1000000000 else - ((- d) div 1000000000))"

definition handlerFailDecision ::
  "DecisionTaskFailedCause \<Rightarrow> string \<Rightarrow> ('ms, 'tb) decisionTaskHandlerImpl \<Rightarrow> ('ms, 'tb) outcome" where
  "handlerFailDecision failedCause failMsg handler =
     (handler\<lparr>failDecision := True,
              failDecisionCause := Some failedCause,
              failMessage := Some failMsg,
              stopProcessing := True\<rparr>, None)"

text \<open>
  The validation function is a closure over a pure validator call, so its result is
  passed in its place.
\<close>
definition validateDecisionAttr ::
  "('ms, 'tb) env \<Rightarrow> error option \<Rightarrow> DecisionTaskFailedCause
    \<Rightarrow> ('ms, 'tb) decisionTaskHandlerImpl \<Rightarrow> ('ms, 'tb) outcome" where
  "validateDecisionAttr env validationFn failedCause handler =
     (case validationFn of
        Some err \<Rightarrow>
          if isBadRequestError err then handlerFailDecision failedCause (Error env err) handler
          else (handler, Some err)
      | None \<Rightarrow> (handler, None))"

text \<open>
  \<^verbatim>\<open>if err := handler.validateDecisionAttr(...); err != nil || handler.stopProcessing { return err }\<close>
  followed by the rest of the function.
\<close>
definition orReturn ::
  "('ms, 'tb) outcome \<Rightarrow> (('ms, 'tb) decisionTaskHandlerImpl \<Rightarrow> ('ms, 'tb) outcome)
    \<Rightarrow> ('ms, 'tb) outcome" where
  "orReturn r rest =
     (case r of (handler, err) \<Rightarrow>
        if err \<noteq> None \<or> stopProcessing handler then (handler, err) else rest handler)"

text \<open>
  The call of the size checker with the test
  \<^verbatim>\<open>if err != nil || failWorkflow { handler.stopProcessing = true; return err }\<close>,
  followed by the rest of the function.
\<close>
definition blobSizeCheck ::
  "('ms, 'tb) env \<Rightarrow> bytes \<Rightarrow> string \<Rightarrow> ('ms, 'tb) decisionTaskHandlerImpl
    \<Rightarrow> (('ms, 'tb) decisionTaskHandlerImpl \<Rightarrow> ('ms, 'tb) outcome) \<Rightarrow> ('ms, 'tb) outcome" where
  "blobSizeCheck env blob message handler rest =
     (case failWorkflowIfBlobSizeExceedsLimit env blob message (mutableState handler) of
        ((failWorkflow, err), ms) \<Rightarrow>
          if err \<noteq> None \<or> failWorkflow
          then (handler\<lparr>mutableState := ms, stopProcessing := True\<rparr>, err)
          else rest (handler\<lparr>mutableState := ms\<rparr>))"

text \<open>
  The resolution of the target domain, which four handlers start with: the domain of the
  execution unless the attributes name one, which the domain cache then has to know.
\<close>
definition targetDomain ::
  "('ms, 'tb) env \<Rightarrow> string \<Rightarrow> string \<Rightarrow> string \<Rightarrow> error + string" where
  "targetDomain env domainID domainName message =
     (if domainName \<noteq> ''''
      then (case domainCache_GetDomain env domainName of
              Inl err \<Rightarrow> Inl (InternalServiceError (message @ domainName @ ''.''))
            | Inr targetDomainEntry \<Rightarrow> Inr (di_ID (dce_info targetDomainEntry)))
      else Inr domainID)"

definition multipleCompletionDecisions ::
  "string \<Rightarrow> ('ms, 'tb) decisionTaskHandlerImpl \<Rightarrow> ('ms, 'tb) outcome" where
  "multipleCompletionDecisions decisionType handler =
     (Warn ''Multiple completion decisions'' decisionType
        (IncCounter MultipleCompletionDecisionsCounter handler), None)"

subsection \<open>The handlers of the twelve decision types\<close>

definition retryCronContinueAsNew ::
  "('ms, 'tb) env \<Rightarrow> WorkflowExecutionStartedEventAttributes option \<Rightarrow> int32
    \<Rightarrow> ContinueAsNewInitiator option \<Rightarrow> string option \<Rightarrow> bytes \<Rightarrow> bytes
    \<Rightarrow> ('ms, 'tb) decisionTaskHandlerImpl \<Rightarrow> ('ms, 'tb) outcome" where
  "retryCronContinueAsNew env attr backoffInterval continueAsNewIter failureReason failureDetails
       lastCompletionResult handler =
     (case attr of
        None \<Rightarrow> (handler, Some NilPointerPanic)
      | Some a \<Rightarrow>
          (let continueAsNewAttributes =
             \<lparr>can_WorkflowType = ws_WorkflowType a,
              can_TaskList = ws_TaskList a,
              can_RetryPolicy = ws_RetryPolicy a,
              can_Input = ws_Input a,
              can_ExecutionStartToCloseTimeoutSeconds = ws_ExecutionStartToCloseTimeoutSeconds a,
              can_TaskStartToCloseTimeoutSeconds = ws_TaskStartToCloseTimeoutSeconds a,
              can_CronSchedule = ws_CronSchedule a,
              can_BackoffStartIntervalInSeconds = Some backoffInterval,
              can_Initiator = continueAsNewIter,
              can_FailureReason = failureReason,
              can_FailureDetails = failureDetails,
              can_LastCompletionResult = lastCompletionResult\<rparr>
           in case AddContinueAsNewEvent env (decisionTaskCompletedID handler)
                  (decisionTaskCompletedID handler) (domainEntry handler)
                  (nilsafe ws_ParentWorkflowDomain '''' attr) (Some continueAsNewAttributes)
                  (eventStoreVersion handler) (mutableState handler) of
                (res, ms) \<Rightarrow>
                  (case res of
                     Inl err \<Rightarrow> (handler\<lparr>mutableState := ms\<rparr>, Some err)
                   | Inr (ev, newStateBuilder) \<Rightarrow>
                       (handler\<lparr>mutableState := ms,
                                continueAsNewBuilder := Some newStateBuilder\<rparr>, None))))"

definition handleDecisionScheduleActivity ::
  "('ms, 'tb) env \<Rightarrow> ScheduleActivityTaskDecisionAttributes option
    \<Rightarrow> ('ms, 'tb) decisionTaskHandlerImpl \<Rightarrow> ('ms, 'tb) outcome" where
  "handleDecisionScheduleActivity env attr handler0 =
     (let handler = IncCounter DecisionTypeScheduleActivityCounter handler0;
          executionInfo = GetExecutionInfo env (mutableState handler);
          domainID = ei_DomainID executionInfo
      in case targetDomain env domainID (nilsafe sa_Domain '''' attr)
                ''Unable to schedule activity across domain '' of
           Inl err \<Rightarrow> (handler, Some err)
         | Inr targetDomainID \<Rightarrow>
             orReturn (validateDecisionAttr env
                 (validateActivityScheduleAttributes (attrValidator env) domainID targetDomainID
                    attr (ei_WorkflowTimeout executionInfo))
                 BadScheduleActivityAttributes handler)
               (\<lambda>handler. case attr of
                  None \<Rightarrow> (handler, Some NilPointerPanic)
                | Some a \<Rightarrow>
                    blobSizeCheck env (sa_Input a)
                      ''ScheduleActivityTaskDecisionAttributes.Input exceeds size limit.'' handler
                      (\<lambda>handler.
                         case AddActivityTaskScheduledEvent env (decisionTaskCompletedID handler)
                                attr (mutableState handler) of
                           (res, ms) \<Rightarrow>
                             (case res of
                                Inr (scheduleEvent, ai) \<Rightarrow>
                                  (handler\<lparr>mutableState := ms,
                                           transferTasks := transferTasks handler @
                                             [ActivityTask targetDomainID
                                                (nilsafe tl_Name '''' (sa_TaskList a))
                                                (he_EventId scheduleEvent)]\<rparr>, None)
                              | Inl err \<Rightarrow>
                                  if isBadRequestError err
                                  then handlerFailDecision ScheduleActivityDuplicateID ''''
                                         (handler\<lparr>mutableState := ms\<rparr>)
                                  else (handler\<lparr>mutableState := ms\<rparr>, Some err)))))"

definition handleDecisionRequestCancelActivity ::
  "('ms, 'tb) env \<Rightarrow> RequestCancelActivityTaskDecisionAttributes option
    \<Rightarrow> ('ms, 'tb) decisionTaskHandlerImpl \<Rightarrow> ('ms, 'tb) outcome" where
  "handleDecisionRequestCancelActivity env attr handler0 =
     (let handler = IncCounter DecisionTypeCancelActivityCounter handler0
      in orReturn (validateDecisionAttr env
             (validateActivityCancelAttributes (attrValidator env) attr)
             BadRequestCancelActivityAttributes handler)
           (\<lambda>handler.
              let activityID = nilsafe rca_ActivityId '''' attr
              in case AddActivityTaskCancelRequestedEvent env (decisionTaskCompletedID handler)
                     activityID (identity handler) (mutableState handler) of
                (res, ms) \<Rightarrow>
                  (case res of
                     Inr (actCancelReqEvent, ai) \<Rightarrow>
                       if ai_StartedID ai = EmptyEventID env
                       then (case AddActivityTaskCanceledEvent env (ai_ScheduleID ai)
                                    (ai_StartedID ai) (he_EventId actCancelReqEvent)
                                    (activityCancellationMsgActivityNotStarted env)
                                    (identity handler) ms of
                               (res2, ms2) \<Rightarrow>
                                 (case res2 of
                                    Inl err \<Rightarrow> (handler\<lparr>mutableState := ms2\<rparr>, Some err)
                                  | Inr ev \<Rightarrow>
                                      (handler\<lparr>mutableState := ms2,
                                               activityNotStartedCancelled := True\<rparr>, None)))
                       else (handler\<lparr>mutableState := ms\<rparr>, None)
                   | Inl err \<Rightarrow>
                       if isBadRequestError err
                       then (case AddRequestCancelActivityTaskFailedEvent env
                                    (decisionTaskCompletedID handler) activityID
                                    (activityCancellationMsgActivityIDUnknown env) ms of
                               (res2, ms2) \<Rightarrow>
                                 (handler\<lparr>mutableState := ms2\<rparr>,
                                  case res2 of Inl err2 \<Rightarrow> Some err2 | Inr ev \<Rightarrow> None))
                       else (handler\<lparr>mutableState := ms\<rparr>, Some err))))"

definition handleDecisionStartTimer ::
  "('ms, 'tb) env \<Rightarrow> StartTimerDecisionAttributes option
    \<Rightarrow> ('ms, 'tb) decisionTaskHandlerImpl \<Rightarrow> ('ms, 'tb) outcome" where
  "handleDecisionStartTimer env attr handler0 =
     (let handler = IncCounter DecisionTypeStartTimerCounter handler0
      in orReturn (validateDecisionAttr env
             (validateTimerScheduleAttributes (attrValidator env) attr)
             BadStartTimerAttributes handler)
           (\<lambda>handler.
              case AddTimerStartedEvent env (decisionTaskCompletedID handler) attr
                     (mutableState handler) of
                (res, ms) \<Rightarrow>
                  (case res of
                     Inr (ev, ti) \<Rightarrow>
                       (handler\<lparr>mutableState := ms,
                                timerBuilder := AddUserTimer env ti (impl ms) (timerBuilder handler)\<rparr>,
                        None)
                   | Inl err \<Rightarrow>
                       if isBadRequestError err
                       then handlerFailDecision StartTimerDuplicateID ''''
                              (handler\<lparr>mutableState := ms\<rparr>)
                       else (handler\<lparr>mutableState := ms\<rparr>, Some err))))"

definition handleDecisionCompleteWorkflow ::
  "('ms, 'tb) env \<Rightarrow> CompleteWorkflowExecutionDecisionAttributes option
    \<Rightarrow> ('ms, 'tb) decisionTaskHandlerImpl \<Rightarrow> ('ms, 'tb) outcome" where
  "handleDecisionCompleteWorkflow env attr handler0 =
     (let handler = IncCounter DecisionTypeCompleteWorkflowCounter handler0
      in if hasUnhandledEventsBeforeDecisions handler
         then handlerFailDecision UnhandledDecision '''' handler
         else orReturn (validateDecisionAttr env
                (validateCompleteWorkflowExecutionAttributes (attrValidator env) attr)
                BadCompleteWorkflowExecutionAttributes handler)
           (\<lambda>handler. case attr of
              None \<Rightarrow> (handler, Some NilPointerPanic)
            | Some a \<Rightarrow>
                blobSizeCheck env (cw_Result a)
                  ''CompleteWorkflowExecutionDecisionAttributes.Result exceeds size limit.'' handler
                  (\<lambda>handler.
                     if \<not> IsWorkflowExecutionRunning env (mutableState handler)
                     then multipleCompletionDecisions ''CompleteWorkflowExecution'' handler
                     else
                       (let cronBackoff = GetCronBackoffDuration env (mutableState handler)
                        in if cronBackoff = NoBackoff env
                           then (case AddCompletedWorkflowEvent env
                                        (decisionTaskCompletedID handler) attr
                                        (mutableState handler) of
                                   (res, ms) \<Rightarrow>
                                     (case res of
                                        Inl err \<Rightarrow>
                                          (handler\<lparr>mutableState := ms\<rparr>,
                                           Some (InternalServiceError
                                             ''Unable to add complete workflow event.''))
                                      | Inr ev \<Rightarrow> (handler\<lparr>mutableState := ms\<rparr>, None)))
                           else (case GetStartEvent env (mutableState handler) of
                                   None \<Rightarrow>
                                     (handler,
                                      Some (InternalServiceError ''Failed to load start event.''))
                                 | Some startEvent \<Rightarrow>
                                     retryCronContinueAsNew env
                                       (he_WorkflowExecutionStartedEventAttributes startEvent)
                                       (Seconds_int32 cronBackoff) (Some CronSchedule)
                                       None [] (cw_Result a) handler)))))"

definition handleDecisionFailWorkflow ::
  "('ms, 'tb) env \<Rightarrow> FailWorkflowExecutionDecisionAttributes option
    \<Rightarrow> ('ms, 'tb) decisionTaskHandlerImpl \<Rightarrow> ('ms, 'tb) outcome" where
  "handleDecisionFailWorkflow env attr handler0 =
     (let handler = IncCounter DecisionTypeFailWorkflowCounter handler0
      in if hasUnhandledEventsBeforeDecisions handler
         then handlerFailDecision UnhandledDecision '''' handler
         else orReturn (validateDecisionAttr env
                (validateFailWorkflowExecutionAttributes (attrValidator env) attr)
                BadFailWorkflowExecutionAttributes handler)
           (\<lambda>handler. case attr of
              None \<Rightarrow> (handler, Some NilPointerPanic)
            | Some a \<Rightarrow>
                blobSizeCheck env (fw_Details a)
                  ''FailWorkflowExecutionDecisionAttributes.Details exceeds size limit.'' handler
                  (\<lambda>handler.
                     if \<not> IsWorkflowExecutionRunning env (mutableState handler)
                     then multipleCompletionDecisions ''FailWorkflowExecution'' handler
                     else
                       (let retryBackoff =
                              GetRetryBackoffDuration env (nilsafe fw_Reason '''' attr)
                                (mutableState handler);
                            backoffInterval =
                              (if retryBackoff = NoBackoff env
                               then GetCronBackoffDuration env (mutableState handler)
                               else retryBackoff);
                            continueAsNewInitiator =
                              (if retryBackoff = NoBackoff env then CronSchedule else RetryPolicy)
                        in if backoffInterval = NoBackoff env
                           then (case AddFailWorkflowEvent env (decisionTaskCompletedID handler)
                                        attr (mutableState handler) of
                                   (res, ms) \<Rightarrow>
                                     (case res of
                                        Inl err \<Rightarrow>
                                          (handler\<lparr>mutableState := ms\<rparr>,
                                           Some (InternalServiceError
                                             ''Unable to add fail workflow event.''))
                                      | Inr ev \<Rightarrow> (handler\<lparr>mutableState := ms\<rparr>, None)))
                           else (case GetStartEvent env (mutableState handler) of
                                   None \<Rightarrow>
                                     (handler,
                                      Some (InternalServiceError ''Failed to load start event.''))
                                 | Some startEvent \<Rightarrow>
                                     (case he_WorkflowExecutionStartedEventAttributes startEvent of
                                        None \<Rightarrow> (handler, Some NilPointerPanic)
                                      | Some startAttributes \<Rightarrow>
                                          retryCronContinueAsNew env (Some startAttributes)
                                            (Seconds_int32 backoffInterval)
                                            (Some continueAsNewInitiator)
                                            (fw_Reason a) (fw_Details a)
                                            (ws_LastCompletionResult startAttributes) handler))))))"

definition handleDecisionCancelTimer ::
  "('ms, 'tb) env \<Rightarrow> CancelTimerDecisionAttributes option
    \<Rightarrow> ('ms, 'tb) decisionTaskHandlerImpl \<Rightarrow> ('ms, 'tb) outcome" where
  "handleDecisionCancelTimer env attr handler0 =
     (let handler = IncCounter DecisionTypeCancelTimerCounter handler0
      in orReturn (validateDecisionAttr env
             (validateTimerCancelAttributes (attrValidator env) attr)
             BadCancelTimerAttributes handler)
           (\<lambda>handler.
              case AddTimerCanceledEvent env (decisionTaskCompletedID handler) attr
                     (identity handler) (mutableState handler) of
                (res, ms) \<Rightarrow>
                  (case res of
                     Inr ev \<Rightarrow>
                       (handler\<lparr>mutableState := ms,
                                timerBuilder := loadUserTimers env (impl ms) (timerBuilderProvider env),
                                hasUnhandledEventsBeforeDecisions := HasBufferedEvents env ms\<rparr>,
                        None)
                   | Inl err \<Rightarrow>
                       if isBadRequestError err
                       then (case AddCancelTimerFailedEvent env (decisionTaskCompletedID handler)
                                    attr (identity handler) ms of
                               (res2, ms2) \<Rightarrow>
                                 (handler\<lparr>mutableState := ms2\<rparr>,
                                  case res2 of Inl err2 \<Rightarrow> Some err2 | Inr ev \<Rightarrow> None))
                       else (handler\<lparr>mutableState := ms\<rparr>, Some err))))"

definition handleDecisionCancelWorkflow ::
  "('ms, 'tb) env \<Rightarrow> CancelWorkflowExecutionDecisionAttributes option
    \<Rightarrow> ('ms, 'tb) decisionTaskHandlerImpl \<Rightarrow> ('ms, 'tb) outcome" where
  "handleDecisionCancelWorkflow env attr handler0 =
     (let handler = IncCounter DecisionTypeCancelWorkflowCounter handler0
      in if hasUnhandledEventsBeforeDecisions handler
         then handlerFailDecision UnhandledDecision '''' handler
         else orReturn (validateDecisionAttr env
                (validateCancelWorkflowExecutionAttributes (attrValidator env) attr)
                BadCancelWorkflowExecutionAttributes handler)
           (\<lambda>handler.
              if \<not> IsWorkflowExecutionRunning env (mutableState handler)
              then multipleCompletionDecisions ''CancelWorkflowExecution'' handler
              else (case AddWorkflowExecutionCanceledEvent env (decisionTaskCompletedID handler)
                           attr (mutableState handler) of
                      (res, ms) \<Rightarrow>
                        (handler\<lparr>mutableState := ms\<rparr>,
                         case res of Inl err \<Rightarrow> Some err | Inr ev \<Rightarrow> None))))"

definition handleDecisionRequestCancelExternalWorkflow ::
  "('ms, 'tb) env \<Rightarrow> RequestCancelExternalWorkflowExecutionDecisionAttributes option
    \<Rightarrow> ('ms, 'tb) decisionTaskHandlerImpl \<Rightarrow> ('ms, 'tb) outcome" where
  "handleDecisionRequestCancelExternalWorkflow env attr handler0 =
     (let handler = IncCounter DecisionTypeCancelExternalWorkflowCounter handler0;
          executionInfo = GetExecutionInfo env (mutableState handler);
          domainID = ei_DomainID executionInfo
      in case targetDomain env domainID (nilsafe rce_Domain '''' attr)
                ''Unable to cancel workflow across domain: '' of
           Inl err \<Rightarrow> (handler, Some err)
         | Inr targetDomainID \<Rightarrow>
             orReturn (validateDecisionAttr env
                 (validateCancelExternalWorkflowExecutionAttributes (attrValidator env) domainID
                    targetDomainID attr)
                 BadRequestCancelExternalWorkflowExecutionAttributes handler)
               (\<lambda>handler.
                  let cancelRequestID = uuid_New env (uuidsDrawn handler);
                      handler = handler\<lparr>uuidsDrawn := Suc (uuidsDrawn handler)\<rparr>
                  in case AddRequestCancelExternalWorkflowExecutionInitiatedEvent env
                            (decisionTaskCompletedID handler) cancelRequestID attr
                            (mutableState handler) of
                       (res, ms) \<Rightarrow>
                         (case res of
                            Inl err \<Rightarrow>
                              (handler\<lparr>mutableState := ms\<rparr>,
                               Some (InternalServiceError
                                 ''Unable to add external cancel workflow request.''))
                          | Inr wfCancelReqEvent \<Rightarrow>
                              (handler\<lparr>mutableState := ms,
                                       transferTasks := transferTasks handler @
                                         [CancelExecutionTask targetDomainID
                                            (nilsafe rce_WorkflowId '''' attr)
                                            (nilsafe rce_RunId '''' attr)
                                            (nilsafe rce_ChildWorkflowOnly False attr)
                                            (he_EventId wfCancelReqEvent)]\<rparr>, None))))"

definition handleDecisionRecordMarker ::
  "('ms, 'tb) env \<Rightarrow> RecordMarkerDecisionAttributes option
    \<Rightarrow> ('ms, 'tb) decisionTaskHandlerImpl \<Rightarrow> ('ms, 'tb) outcome" where
  "handleDecisionRecordMarker env attr handler0 =
     (let handler = IncCounter DecisionTypeRecordMarkerCounter handler0
      in orReturn (validateDecisionAttr env
             (validateRecordMarkerAttributes (attrValidator env) attr)
             BadRecordMarkerAttributes handler)
           (\<lambda>handler. case attr of
              None \<Rightarrow> (handler, Some NilPointerPanic)
            | Some a \<Rightarrow>
                blobSizeCheck env (rm_Details a)
                  ''RecordMarkerDecisionAttributes.Details exceeds size limit.'' handler
                  (\<lambda>handler.
                     case AddRecordMarkerEvent env (decisionTaskCompletedID handler) attr
                            (mutableState handler) of
                       (res, ms) \<Rightarrow>
                         (handler\<lparr>mutableState := ms\<rparr>,
                          case res of Inl err \<Rightarrow> Some err | Inr ev \<Rightarrow> None))))"

text \<open>
  The execution info is the one read at the start of the function, where the source takes
  the pointer to it.
\<close>
definition handleDecisionContinueAsNewWorkflow ::
  "('ms, 'tb) env \<Rightarrow> ContinueAsNewWorkflowExecutionDecisionAttributes option
    \<Rightarrow> ('ms, 'tb) decisionTaskHandlerImpl \<Rightarrow> ('ms, 'tb) outcome" where
  "handleDecisionContinueAsNewWorkflow env attr handler0 =
     (let handler = IncCounter DecisionTypeContinueAsNewCounter handler0
      in if hasUnhandledEventsBeforeDecisions handler
         then handlerFailDecision UnhandledDecision '''' handler
         else
           (let executionInfo = GetExecutionInfo env (mutableState handler)
            in orReturn (validateDecisionAttr env
                   (validateContinueAsNewWorkflowExecutionAttributes (attrValidator env) attr
                      executionInfo)
                   BadContinueAsNewAttributes handler)
              (\<lambda>handler. case attr of
                 None \<Rightarrow> (handler, Some NilPointerPanic)
               | Some a \<Rightarrow>
                   blobSizeCheck env (can_Input a)
                     ''ContinueAsNewWorkflowExecutionDecisionAttributes.Input exceeds size limit.''
                     handler
                     (\<lambda>handler.
                        if \<not> IsWorkflowExecutionRunning env (mutableState handler)
                        then multipleCompletionDecisions ''ContinueAsNewWorkflowExecution'' handler
                        else
                          (case (if HasParentExecution env (mutableState handler)
                                 then (case domainCache_GetDomainByID env
                                              (ei_ParentDomainID executionInfo) of
                                         Inl err \<Rightarrow> Inl err
                                       | Inr parentDomainEntry \<Rightarrow>
                                           Inr (di_Name (dce_info parentDomainEntry)))
                                 else Inr '''') of
                             Inl err \<Rightarrow> (handler, Some err)
                           | Inr parentDomainName \<Rightarrow>
                               (case AddContinueAsNewEvent env (decisionTaskCompletedID handler)
                                       (decisionTaskCompletedID handler) (domainEntry handler)
                                       parentDomainName attr (eventStoreVersion handler)
                                       (mutableState handler) of
                                  (res, ms) \<Rightarrow>
                                    (case res of
                                       Inl err \<Rightarrow> (handler\<lparr>mutableState := ms\<rparr>, Some err)
                                     | Inr (ev, newStateBuilder) \<Rightarrow>
                                         (handler\<lparr>mutableState := ms,
                                                  continueAsNewBuilder := Some newStateBuilder\<rparr>,
                                          None))))))))"

definition handleDecisionStartChildWorkflow ::
  "('ms, 'tb) env \<Rightarrow> StartChildWorkflowExecutionDecisionAttributes option
    \<Rightarrow> ('ms, 'tb) decisionTaskHandlerImpl \<Rightarrow> ('ms, 'tb) outcome" where
  "handleDecisionStartChildWorkflow env attr handler0 =
     (let handler = IncCounter DecisionTypeChildWorkflowCounter handler0;
          executionInfo = GetExecutionInfo env (mutableState handler);
          domainID = ei_DomainID executionInfo
      in case targetDomain env domainID (nilsafe sc_Domain '''' attr)
                ''Unable to schedule child execution across domain '' of
           Inl err \<Rightarrow> (handler, Some err)
         | Inr targetDomainID \<Rightarrow>
             orReturn (validateDecisionAttr env
                 (validateStartChildExecutionAttributes (attrValidator env) domainID
                    targetDomainID attr executionInfo)
                 BadStartChildExecutionAttributes handler)
               (\<lambda>handler. case attr of
                  None \<Rightarrow> (handler, Some NilPointerPanic)
                | Some a \<Rightarrow>
                    blobSizeCheck env (sc_Input a)
                      ''StartChildWorkflowExecutionDecisionAttributes.Input exceeds size limit.''
                      handler
                      (\<lambda>handler.
                         let requestID = uuid_New env (uuidsDrawn handler);
                             handler = handler\<lparr>uuidsDrawn := Suc (uuidsDrawn handler)\<rparr>
                         in case AddStartChildWorkflowExecutionInitiatedEvent env
                                   (decisionTaskCompletedID handler) requestID attr
                                   (mutableState handler) of
                              (res, ms) \<Rightarrow>
                                (case res of
                                   Inl err \<Rightarrow> (handler\<lparr>mutableState := ms\<rparr>, Some err)
                                 | Inr initiatedEvent \<Rightarrow>
                                     (handler\<lparr>mutableState := ms,
                                              transferTasks := transferTasks handler @
                                                [StartChildExecutionTask targetDomainID
                                                   (nilsafe sc_WorkflowId '''' attr)
                                                   (he_EventId initiatedEvent)]\<rparr>, None)))))"

definition handleDecisionSignalExternalWorkflow ::
  "('ms, 'tb) env \<Rightarrow> SignalExternalWorkflowExecutionDecisionAttributes option
    \<Rightarrow> ('ms, 'tb) decisionTaskHandlerImpl \<Rightarrow> ('ms, 'tb) outcome" where
  "handleDecisionSignalExternalWorkflow env attr handler0 =
     (let handler = IncCounter DecisionTypeSignalExternalWorkflowCounter handler0;
          executionInfo = GetExecutionInfo env (mutableState handler);
          domainID = ei_DomainID executionInfo
      in case targetDomain env domainID (nilsafe se_Domain '''' attr)
                ''Unable to signal workflow across domain: '' of
           Inl err \<Rightarrow> (handler, Some err)
         | Inr targetDomainID \<Rightarrow>
             orReturn (validateDecisionAttr env
                 (validateSignalExternalWorkflowExecutionAttributes (attrValidator env) domainID
                    targetDomainID attr)
                 BadSignalWorkflowExecutionAttributes handler)
               (\<lambda>handler. case attr of
                  None \<Rightarrow> (handler, Some NilPointerPanic)
                | Some a \<Rightarrow>
                    blobSizeCheck env (se_Input a)
                      ''SignalExternalWorkflowExecutionDecisionAttributes.Input exceeds size limit.''
                      handler
                      (\<lambda>handler.
                         let signalRequestID = uuid_New env (uuidsDrawn handler);
                             handler = handler\<lparr>uuidsDrawn := Suc (uuidsDrawn handler)\<rparr>
                         in case AddSignalExternalWorkflowExecutionInitiatedEvent env
                                   (decisionTaskCompletedID handler) signalRequestID attr
                                   (mutableState handler) of
                              (res, ms) \<Rightarrow>
                                (case res of
                                   Inl err \<Rightarrow>
                                     (handler\<lparr>mutableState := ms\<rparr>,
                                      Some (InternalServiceError
                                        ''Unable to add external signal workflow request.''))
                                 | Inr wfSignalReqEvent \<Rightarrow>
                                     (handler\<lparr>mutableState := ms,
                                              transferTasks := transferTasks handler @
                                                [SignalExecutionTask targetDomainID
                                                   (nilsafe we_WorkflowId '''' (se_Execution a))
                                                   (nilsafe we_RunId '''' (se_Execution a))
                                                   (nilsafe se_ChildWorkflowOnly False attr)
                                                   (he_EventId wfSignalReqEvent)]\<rparr>, None)))))"

subsection \<open>Dispatch and the loop over the batch\<close>

fun handleDecision ::
  "('ms, 'tb) env \<Rightarrow> ('ms, 'tb) decisionTaskHandlerImpl \<Rightarrow> Decision \<Rightarrow> ('ms, 'tb) outcome" where
  "handleDecision env handler (ScheduleActivityTask attr) =
     handleDecisionScheduleActivity env attr handler"
| "handleDecision env handler (CompleteWorkflowExecution attr) =
     handleDecisionCompleteWorkflow env attr handler"
| "handleDecision env handler (FailWorkflowExecution attr) =
     handleDecisionFailWorkflow env attr handler"
| "handleDecision env handler (CancelWorkflowExecution attr) =
     handleDecisionCancelWorkflow env attr handler"
| "handleDecision env handler (StartTimer attr) =
     handleDecisionStartTimer env attr handler"
| "handleDecision env handler (RequestCancelActivityTask attr) =
     handleDecisionRequestCancelActivity env attr handler"
| "handleDecision env handler (CancelTimer attr) =
     handleDecisionCancelTimer env attr handler"
| "handleDecision env handler (RecordMarker attr) =
     handleDecisionRecordMarker env attr handler"
| "handleDecision env handler (RequestCancelExternalWorkflowExecution attr) =
     handleDecisionRequestCancelExternalWorkflow env attr handler"
| "handleDecision env handler (SignalExternalWorkflowExecution attr) =
     handleDecisionSignalExternalWorkflow env attr handler"
| "handleDecision env handler (ContinueAsNewWorkflowExecution attr) =
     handleDecisionContinueAsNewWorkflow env attr handler"
| "handleDecision env handler (StartChildWorkflowExecution attr) =
     handleDecisionStartChildWorkflow env attr handler"
| "handleDecision env handler (UnknownDecisionType name) =
     (handler, Some (BadRequestError (''Unknown decision type: '' @ name)))"

fun handleDecisions ::
  "('ms, 'tb) env \<Rightarrow> ('ms, 'tb) decisionTaskHandlerImpl \<Rightarrow> Decision list \<Rightarrow> ('ms, 'tb) outcome" where
  "handleDecisions env handler [] = (handler, None)"
| "handleDecisions env handler (decision # decisions) =
     (case handleDecision env handler decision of
        (handler', err) \<Rightarrow>
          if err \<noteq> None \<or> stopProcessing handler' then (handler', err)
          else handleDecisions env handler' decisions)"

definition newDecisionTaskHandler ::
  "('ms, 'tb) env \<Rightarrow> string \<Rightarrow> int64 \<Rightarrow> int32 \<Rightarrow> DomainCacheEntry \<Rightarrow> 'ms mutableState
    \<Rightarrow> ('ms, 'tb) decisionTaskHandlerImpl" where
  "newDecisionTaskHandler env ident completedID esv domEntry ms =
     \<lparr>identity = ident,
      decisionTaskCompletedID = completedID,
      eventStoreVersion = esv,
      domainEntry = domEntry,
      hasUnhandledEventsBeforeDecisions = HasBufferedEvents env ms,
      timerBuilder = timerBuilderProvider env,
      transferTasks = [],
      timerTasks = [],
      failDecision = False,
      failDecisionCause = None,
      failMessage = None,
      activityNotStartedCancelled = False,
      continueAsNewBuilder = None,
      stopProcessing = False,
      mutableState = ms,
      metricsClient = [],
      logger = [],
      uuidsDrawn = 0\<rparr>"

section \<open>The blob size checker of the specification\<close>

text \<open>
  Modelled from the spec: the blob size checker (\<^verbatim>\<open>decisionBlobSizeChecker\<close>) is not part of
  the sources.  The specification gives it a warn limit and an error limit per domain: a
  payload within the error limit has no effect on the handling (above the warn limit a
  metric is emitted), and a payload above the error limit terminates the workflow with a
  \<^verbatim>\<open>WorkflowExecutionTerminated\<close> event carrying the reason \<^verbatim>\<open>PayloadSizeExceedsLimit\<close>.
  The termination is an event application on the mutable state, given as \<open>terminate\<close>; an
  error of that application is returned as the error of the check.
\<close>

definition PayloadSizeExceedsLimit :: string where
  "PayloadSizeExceedsLimit = ''PayloadSizeExceedsLimit''"

definition specBlobSizeChecker ::
  "nat \<Rightarrow> nat \<Rightarrow> (string \<Rightarrow> string \<Rightarrow> 'ms \<Rightarrow> (error + HistoryEvent) \<times> 'ms)
    \<Rightarrow> bytes \<Rightarrow> string \<Rightarrow> 'ms mutableState \<Rightarrow> (bool \<times> error option) \<times> 'ms mutableState" where
  "specBlobSizeChecker warnLimit errorLimit terminate blob message m =
     (if length blob \<le> errorLimit then ((False, None), m)
      else (case applyEvent (terminate PayloadSizeExceedsLimit message)
                   (WorkflowExecutionTerminated PayloadSizeExceedsLimit message) m of
              (res, m') \<Rightarrow>
                (case res of
                   Inl err \<Rightarrow> ((False, Some err), m')
                 | Inr ev \<Rightarrow> ((True, None), m'))))"

section \<open>A small mutable state for concrete runs\<close>

text \<open>
  An implementation of the collaborators, small enough to evaluate, on which the theorems
  are exercised: every event takes the next event id; a closed workflow refuses every
  event; activity and timer ids are unique; cancelling a timer whose fired event is
  buffered consumes that event.
\<close>

record testState =
  ts_running :: bool
  ts_buffered :: bool
  ts_nextEventID :: int64
  ts_activities :: "(string \<times> ActivityInfo) list"
  ts_timers :: "string list"
  ts_firedTimers :: "string list"
  ts_retryBackoff :: Duration
  ts_cronBackoff :: Duration
  ts_startEvent :: "HistoryEvent option"
  ts_info :: WorkflowExecutionInfo

definition ts_closed :: error where
  "ts_closed = InternalServiceError ''workflow execution already completed''"

definition ts_event :: "testState \<Rightarrow> HistoryEvent" where
  "ts_event s = \<lparr>he_EventId = ts_nextEventID s, he_WorkflowExecutionStartedEventAttributes = None\<rparr>"

definition ts_emit :: "testState \<Rightarrow> (error + HistoryEvent) \<times> testState" where
  "ts_emit s =
     (if ts_running s then (Inr (ts_event s), s\<lparr>ts_nextEventID := ts_nextEventID s + 1\<rparr>)
      else (Inl ts_closed, s))"

definition ts_close :: "testState \<Rightarrow> (error + HistoryEvent) \<times> testState" where
  "ts_close s =
     (if ts_running s
      then (Inr (ts_event s), s\<lparr>ts_running := False, ts_nextEventID := ts_nextEventID s + 1\<rparr>)
      else (Inl ts_closed, s))"

definition ts_schedule ::
  "ScheduleActivityTaskDecisionAttributes option \<Rightarrow> testState
    \<Rightarrow> (error + HistoryEvent \<times> ActivityInfo) \<times> testState" where
  "ts_schedule attr s =
     (let activityID = nilsafe sa_ActivityId '''' attr;
          ai = \<lparr>ai_ScheduleID = ts_nextEventID s, ai_StartedID = - 23\<rparr>
      in if \<not> ts_running s then (Inl ts_closed, s)
         else if activityID \<in> set (map fst (ts_activities s))
         then (Inl (BadRequestError ''duplicate activity id''), s)
         else (Inr (ts_event s, ai),
               s\<lparr>ts_activities := ts_activities s @ [(activityID, ai)],
                 ts_nextEventID := ts_nextEventID s + 1\<rparr>))"

definition ts_cancelRequested ::
  "string \<Rightarrow> testState \<Rightarrow> (error + HistoryEvent \<times> ActivityInfo) \<times> testState" where
  "ts_cancelRequested activityID s =
     (if \<not> ts_running s then (Inl ts_closed, s)
      else (case map_of (ts_activities s) activityID of
              None \<Rightarrow> (Inl (BadRequestError ''unknown activity id''), s)
            | Some ai \<Rightarrow> (Inr (ts_event s, ai), s\<lparr>ts_nextEventID := ts_nextEventID s + 1\<rparr>)))"

definition ts_timerStarted ::
  "StartTimerDecisionAttributes option \<Rightarrow> testState
    \<Rightarrow> (error + HistoryEvent \<times> TimerInfo) \<times> testState" where
  "ts_timerStarted attr s =
     (let timerID = nilsafe st_TimerId '''' attr
      in if \<not> ts_running s then (Inl ts_closed, s)
         else if timerID \<in> set (ts_timers s)
         then (Inl (BadRequestError ''duplicate timer id''), s)
         else (Inr (ts_event s, \<lparr>ti_TimerID = timerID\<rparr>),
               s\<lparr>ts_timers := ts_timers s @ [timerID],
                 ts_nextEventID := ts_nextEventID s + 1\<rparr>))"

definition ts_timerCanceled ::
  "CancelTimerDecisionAttributes option \<Rightarrow> testState \<Rightarrow> (error + HistoryEvent) \<times> testState" where
  "ts_timerCanceled attr s =
     (let timerID = nilsafe ct_TimerId '''' attr
      in if \<not> ts_running s then (Inl ts_closed, s)
         else if timerID \<notin> set (ts_timers s)
         then (Inl (BadRequestError ''unknown timer id''), s)
         else (Inr (ts_event s),
               s\<lparr>ts_timers := removeAll timerID (ts_timers s),
                 ts_firedTimers := removeAll timerID (ts_firedTimers s),
                 ts_buffered := (ts_buffered s \<and> timerID \<notin> set (ts_firedTimers s)),
                 ts_nextEventID := ts_nextEventID s + 1\<rparr>))"

definition ts_continueAsNew :: "testState \<Rightarrow> (error + HistoryEvent \<times> testState) \<times> testState" where
  "ts_continueAsNew s =
     (if ts_running s
      then (Inr (ts_event s, s\<lparr>ts_buffered := False, ts_nextEventID := 1, ts_activities := [],
                              ts_timers := [], ts_firedTimers := []\<rparr>),
            s\<lparr>ts_running := False, ts_nextEventID := ts_nextEventID s + 1\<rparr>)
      else (Inl ts_closed, s))"

definition testGetters :: "testState msGetters" where
  "testGetters =
     \<lparr>ms_GetExecutionInfo = ts_info,
      ms_HasBufferedEvents = ts_buffered,
      ms_IsWorkflowExecutionRunning = ts_running,
      ms_HasParentExecution = (\<lambda>s. ei_ParentDomainID (ts_info s) \<noteq> ''''),
      ms_GetStartEvent = ts_startEvent,
      ms_GetCronBackoffDuration = ts_cronBackoff,
      ms_GetRetryBackoffDuration = (\<lambda>reason. ts_retryBackoff)\<rparr>"

definition testMutators :: "testState msMutators" where
  "testMutators =
     \<lparr>ms_AddActivityTaskScheduledEvent = (\<lambda>cid. ts_schedule),
      ms_AddActivityTaskCancelRequestedEvent = (\<lambda>cid activityID ident. ts_cancelRequested activityID),
      ms_AddActivityTaskCanceledEvent = (\<lambda>scheduleID startedID cancelID details ident. ts_emit),
      ms_AddRequestCancelActivityTaskFailedEvent = (\<lambda>cid activityID cause. ts_emit),
      ms_AddTimerStartedEvent = (\<lambda>cid. ts_timerStarted),
      ms_AddTimerCanceledEvent = (\<lambda>cid attr ident. ts_timerCanceled attr),
      ms_AddCancelTimerFailedEvent = (\<lambda>cid attr ident. ts_emit),
      ms_AddCompletedWorkflowEvent = (\<lambda>cid attr. ts_close),
      ms_AddFailWorkflowEvent = (\<lambda>cid attr. ts_close),
      ms_AddWorkflowExecutionCanceledEvent = (\<lambda>cid attr. ts_close),
      ms_AddRecordMarkerEvent = (\<lambda>cid attr. ts_emit),
      ms_AddRequestCancelExternalWorkflowExecutionInitiatedEvent = (\<lambda>cid requestID attr. ts_emit),
      ms_AddSignalExternalWorkflowExecutionInitiatedEvent = (\<lambda>cid requestID attr. ts_emit),
      ms_AddStartChildWorkflowExecutionInitiatedEvent = (\<lambda>cid requestID attr. ts_emit),
      ms_AddContinueAsNewEvent = (\<lambda>firstEventID cid domEntry parentDomainName attr esv.
                                   ts_continueAsNew)\<rparr>"

text \<open>The validator of the test environment asks for the attributes and their identifier.\<close>

definition required :: "string \<Rightarrow> 'a option \<Rightarrow> ('a \<Rightarrow> string option) \<Rightarrow> error option" where
  "required what attr ident =
     (case attr of
        None \<Rightarrow> Some (BadRequestError (what @ '' attributes are not set''))
      | Some a \<Rightarrow>
          if nilsafe ident '''' attr = '''' then Some (BadRequestError (what @ '' id is not set''))
          else None)"

definition present :: "string \<Rightarrow> 'a option \<Rightarrow> error option" where
  "present what attr =
     (case attr of
        None \<Rightarrow> Some (BadRequestError (what @ '' attributes are not set''))
      | Some a \<Rightarrow> None)"

definition testValidator :: decisionAttrValidator where
  "testValidator =
     \<lparr>validateActivityScheduleAttributes =
        (\<lambda>domainID targetDomainID attr timeout. required ''ScheduleActivity'' attr sa_ActivityId),
      validateActivityCancelAttributes = (\<lambda>attr. required ''RequestCancelActivity'' attr rca_ActivityId),
      validateTimerScheduleAttributes = (\<lambda>attr. required ''StartTimer'' attr st_TimerId),
      validateTimerCancelAttributes = (\<lambda>attr. required ''CancelTimer'' attr ct_TimerId),
      validateCompleteWorkflowExecutionAttributes = present ''CompleteWorkflow'',
      validateFailWorkflowExecutionAttributes = (\<lambda>attr. required ''FailWorkflow'' attr fw_Reason),
      validateCancelWorkflowExecutionAttributes = present ''CancelWorkflow'',
      validateCancelExternalWorkflowExecutionAttributes =
        (\<lambda>domainID targetDomainID attr. required ''RequestCancelExternalWorkflow'' attr rce_WorkflowId),
      validateRecordMarkerAttributes = (\<lambda>attr. required ''RecordMarker'' attr rm_MarkerName),
      validateContinueAsNewWorkflowExecutionAttributes = (\<lambda>attr info. present ''ContinueAsNew'' attr),
      validateStartChildExecutionAttributes =
        (\<lambda>domainID targetDomainID attr info. required ''StartChildWorkflow'' attr sc_WorkflowId),
      validateSignalExternalWorkflowExecutionAttributes =
        (\<lambda>domainID targetDomainID attr. required ''SignalExternalWorkflow'' attr se_SignalName)\<rparr>"

definition testError :: "error \<Rightarrow> string" where
  "testError err =
     (case err of
        BadRequestError m \<Rightarrow> ''BadRequestError{Message: '' @ m @ ''}''
      | InternalServiceError m \<Rightarrow> ''InternalServiceError{Message: '' @ m @ ''}''
      | OtherError m \<Rightarrow> m
      | NilPointerPanic \<Rightarrow> ''nil pointer dereference'')"

definition testDomains :: "string \<Rightarrow> error + DomainCacheEntry" where
  "testDomains name =
     (if name = ''other'' then Inr \<lparr>dce_info = \<lparr>di_ID = ''other-id'', di_Name = ''other''\<rparr>\<rparr>
      else Inl (OtherError ''domain not found''))"

definition testDomainsByID :: "string \<Rightarrow> error + DomainCacheEntry" where
  "testDomainsByID ident =
     (if ident = ''other-id'' then Inr \<lparr>dce_info = \<lparr>di_ID = ''other-id'', di_Name = ''other''\<rparr>\<rparr>
      else Inl (OtherError ''domain not found''))"

text \<open>The test environment: error limit of four bytes, request ids \<open>u\<close>, \<open>uu\<close>, \<open>uuu\<close>, ...\<close>

definition testEnv :: "(testState, TimerInfo list) env" where
  "testEnv =
     \<lparr>attrValidator = testValidator,
      failWorkflowIfBlobSizeExceedsLimit = specBlobSizeChecker 2 4 (\<lambda>reason message. ts_close),
      getters = testGetters,
      mutators = testMutators,
      domainCache_GetDomain = testDomains,
      domainCache_GetDomainByID = testDomainsByID,
      timerBuilderProvider = [],
      AddUserTimer = (\<lambda>ti s tb. tb @ [ti]),
      loadUserTimers = (\<lambda>s tb. map (\<lambda>t. \<lparr>ti_TimerID = t\<rparr>) (ts_timers s)),
      uuid_New = (\<lambda>k. replicate (Suc k) CHR ''u''),
      Error = testError,
      NoBackoff = - 1,
      EmptyEventID = - 23,
      activityCancellationMsgActivityIDUnknown = ''ACTIVITY_ID_UNKNOWN'',
      activityCancellationMsgActivityNotStarted = [1, 2, 3]\<rparr>"

definition testStart :: WorkflowExecutionStartedEventAttributes where
  "testStart =
     \<lparr>ws_WorkflowType = Some \<lparr>wt_Name = Some ''wf''\<rparr>,
      ws_ParentWorkflowDomain = None,
      ws_TaskList = Some \<lparr>tl_Name = Some ''tl''\<rparr>,
      ws_Input = [7],
      ws_ExecutionStartToCloseTimeoutSeconds = Some 60,
      ws_TaskStartToCloseTimeoutSeconds = Some 10,
      ws_LastCompletionResult = [9, 9],
      ws_RetryPolicy = Some \<lparr>rp_InitialIntervalInSeconds = Some 1, rp_MaximumAttempts = Some 3\<rparr>,
      ws_CronSchedule = None\<rparr>"

text \<open>A running workflow with no buffered events, no retry and no cron schedule, at event 10.\<close>

definition testState0 :: testState where
  "testState0 =
     \<lparr>ts_running = True,
      ts_buffered = False,
      ts_nextEventID = 10,
      ts_activities = [],
      ts_timers = [],
      ts_firedTimers = [],
      ts_retryBackoff = - 1,
      ts_cronBackoff = - 1,
      ts_startEvent = Some \<lparr>he_EventId = 1,
                              he_WorkflowExecutionStartedEventAttributes = Some testStart\<rparr>,
      ts_info = \<lparr>ei_DomainID = ''dom'', ei_WorkflowTimeout = 60, ei_ParentDomainID = ''''\<rparr>\<rparr>"

definition testHandler :: "testState \<Rightarrow> (testState, TimerInfo list) decisionTaskHandlerImpl" where
  "testHandler s =
     newDecisionTaskHandler testEnv ''worker'' 5 0 \<lparr>dce_info = \<lparr>di_ID = ''dom'', di_Name = ''d''\<rparr>\<rparr>
       \<lparr>impl = s, applied = []\<rparr>"

section \<open>Notions used to state the properties\<close>



text \<open>The counter that the handler of a decision increments first (none for an unknown type).\<close>
fun decisionCounters :: "Decision \<Rightarrow> metric list" where
  "decisionCounters (ScheduleActivityTask attr) = [DecisionTypeScheduleActivityCounter]"
| "decisionCounters (CompleteWorkflowExecution attr) = [DecisionTypeCompleteWorkflowCounter]"
| "decisionCounters (FailWorkflowExecution attr) = [DecisionTypeFailWorkflowCounter]"
| "decisionCounters (CancelWorkflowExecution attr) = [DecisionTypeCancelWorkflowCounter]"
| "decisionCounters (StartTimer attr) = [DecisionTypeStartTimerCounter]"
| "decisionCounters (RequestCancelActivityTask attr) = [DecisionTypeCancelActivityCounter]"
| "decisionCounters (CancelTimer attr) = [DecisionTypeCancelTimerCounter]"
| "decisionCounters (RecordMarker attr) = [DecisionTypeRecordMarkerCounter]"
| "decisionCounters (RequestCancelExternalWorkflowExecution attr) =
     [DecisionTypeCancelExternalWorkflowCounter]"
| "decisionCounters (SignalExternalWorkflowExecution attr) =
     [DecisionTypeSignalExternalWorkflowCounter]"
| "decisionCounters (ContinueAsNewWorkflowExecution attr) = [DecisionTypeContinueAsNewCounter]"
| "decisionCounters (StartChildWorkflowExecution attr) = [DecisionTypeChildWorkflowCounter]"
| "decisionCounters (UnknownDecisionType name) = []"

text \<open>The cause with which the handler of a decision reports attributes that are not valid.\<close>
fun badAttributesCause :: "Decision \<Rightarrow> DecisionTaskFailedCause option" where
  "badAttributesCause (ScheduleActivityTask attr) = Some BadScheduleActivityAttributes"
| "badAttributesCause (CompleteWorkflowExecution attr) = Some BadCompleteWorkflowExecutionAttributes"
| "badAttributesCause (FailWorkflowExecution attr) = Some BadFailWorkflowExecutionAttributes"
| "badAttributesCause (CancelWorkflowExecution attr) = Some BadCancelWorkflowExecutionAttributes"
| "badAttributesCause (StartTimer attr) = Some BadStartTimerAttributes"
| "badAttributesCause (RequestCancelActivityTask attr) = Some BadRequestCancelActivityAttributes"
| "badAttributesCause (CancelTimer attr) = Some BadCancelTimerAttributes"
| "badAttributesCause (RecordMarker attr) = Some BadRecordMarkerAttributes"
| "badAttributesCause (RequestCancelExternalWorkflowExecution attr) =
     Some BadRequestCancelExternalWorkflowExecutionAttributes"
| "badAttributesCause (SignalExternalWorkflowExecution attr) =
     Some BadSignalWorkflowExecutionAttributes"
| "badAttributesCause (ContinueAsNewWorkflowExecution attr) = Some BadContinueAsNewAttributes"
| "badAttributesCause (StartChildWorkflowExecution attr) = Some BadStartChildExecutionAttributes"
| "badAttributesCause (UnknownDecisionType name) = None"

text \<open>
  The answer of the validator to the call that the handler of a decision makes, when the
  handler gets that far: \<open>None\<close> when it returns before (a terminal decision with unhandled
  events, a target domain that the cache does not know, an unknown decision type).
\<close>
fun attrValidation ::
  "('ms, 'tb) env \<Rightarrow> ('ms, 'tb) decisionTaskHandlerImpl \<Rightarrow> Decision \<Rightarrow> error option option" where
  "attrValidation env h (ScheduleActivityTask attr) =
     (let info = GetExecutionInfo env (mutableState h)
      in case targetDomain env (ei_DomainID info) (nilsafe sa_Domain '''' attr)
                ''Unable to schedule activity across domain '' of
           Inl err \<Rightarrow> None
         | Inr target \<Rightarrow>
             Some (validateActivityScheduleAttributes (attrValidator env) (ei_DomainID info) target
                     attr (ei_WorkflowTimeout info)))"
| "attrValidation env h (CompleteWorkflowExecution attr) =
     (if hasUnhandledEventsBeforeDecisions h then None
      else Some (validateCompleteWorkflowExecutionAttributes (attrValidator env) attr))"
| "attrValidation env h (FailWorkflowExecution attr) =
     (if hasUnhandledEventsBeforeDecisions h then None
      else Some (validateFailWorkflowExecutionAttributes (attrValidator env) attr))"
| "attrValidation env h (CancelWorkflowExecution attr) =
     (if hasUnhandledEventsBeforeDecisions h then None
      else Some (validateCancelWorkflowExecutionAttributes (attrValidator env) attr))"
| "attrValidation env h (StartTimer attr) =
     Some (validateTimerScheduleAttributes (attrValidator env) attr)"
| "attrValidation env h (RequestCancelActivityTask attr) =
     Some (validateActivityCancelAttributes (attrValidator env) attr)"
| "attrValidation env h (CancelTimer attr) =
     Some (validateTimerCancelAttributes (attrValidator env) attr)"
| "attrValidation env h (RecordMarker attr) =
     Some (validateRecordMarkerAttributes (attrValidator env) attr)"
| "attrValidation env h (RequestCancelExternalWorkflowExecution attr) =
     (let info = GetExecutionInfo env (mutableState h)
      in case targetDomain env (ei_DomainID info) (nilsafe rce_Domain '''' attr)
                ''Unable to cancel workflow across domain: '' of
           Inl err \<Rightarrow> None
         | Inr target \<Rightarrow>
             Some (validateCancelExternalWorkflowExecutionAttributes (attrValidator env)
                     (ei_DomainID info) target attr))"
| "attrValidation env h (SignalExternalWorkflowExecution attr) =
     (let info = GetExecutionInfo env (mutableState h)
      in case targetDomain env (ei_DomainID info) (nilsafe se_Domain '''' attr)
                ''Unable to signal workflow across domain: '' of
           Inl err \<Rightarrow> None
         | Inr target \<Rightarrow>
             Some (validateSignalExternalWorkflowExecutionAttributes (attrValidator env)
                     (ei_DomainID info) target attr))"
| "attrValidation env h (ContinueAsNewWorkflowExecution attr) =
     (if hasUnhandledEventsBeforeDecisions h then None
      else Some (validateContinueAsNewWorkflowExecutionAttributes (attrValidator env) attr
                   (GetExecutionInfo env (mutableState h))))"
| "attrValidation env h (StartChildWorkflowExecution attr) =
     (let info = GetExecutionInfo env (mutableState h)
      in case targetDomain env (ei_DomainID info) (nilsafe sc_Domain '''' attr)
                ''Unable to schedule child execution across domain '' of
           Inl err \<Rightarrow> None
         | Inr target \<Rightarrow>
             Some (validateStartChildExecutionAttributes (attrValidator env) (ei_DomainID info)
                     target attr info))"
| "attrValidation env h (UnknownDecisionType name) = None"

text \<open>
  The payload that the handler of a decision hands to the size checker, with the message:
  seven of the twelve handlers call the checker.
\<close>
fun blobPayload :: "Decision \<Rightarrow> (bytes \<times> string) option" where
  "blobPayload (ScheduleActivityTask (Some a)) =
     Some (sa_Input a, ''ScheduleActivityTaskDecisionAttributes.Input exceeds size limit.'')"
| "blobPayload (CompleteWorkflowExecution (Some a)) =
     Some (cw_Result a, ''CompleteWorkflowExecutionDecisionAttributes.Result exceeds size limit.'')"
| "blobPayload (FailWorkflowExecution (Some a)) =
     Some (fw_Details a, ''FailWorkflowExecutionDecisionAttributes.Details exceeds size limit.'')"
| "blobPayload (RecordMarker (Some a)) =
     Some (rm_Details a, ''RecordMarkerDecisionAttributes.Details exceeds size limit.'')"
| "blobPayload (ContinueAsNewWorkflowExecution (Some a)) =
     Some (can_Input a,
           ''ContinueAsNewWorkflowExecutionDecisionAttributes.Input exceeds size limit.'')"
| "blobPayload (StartChildWorkflowExecution (Some a)) =
     Some (sc_Input a, ''StartChildWorkflowExecutionDecisionAttributes.Input exceeds size limit.'')"
| "blobPayload (SignalExternalWorkflowExecution (Some a)) =
     Some (se_Input a,
           ''SignalExternalWorkflowExecutionDecisionAttributes.Input exceeds size limit.'')"
| "blobPayload d = None"









text \<open>Decisions and states of the concrete runs.\<close>

definition testActivity :: ScheduleActivityTaskDecisionAttributes where
  "testActivity =
     \<lparr>sa_ActivityId = Some ''a'', sa_Domain = None, sa_TaskList = Some \<lparr>tl_Name = Some ''tl''\<rparr>,
      sa_Input = [1]\<rparr>"



definition testComplete :: CompleteWorkflowExecutionDecisionAttributes where
  "testComplete = \<lparr>cw_Result = [1]\<rparr>"

text \<open>Payloads of five bytes, above the error limit of four of the test environment.\<close>
definition testCompleteOversize :: CompleteWorkflowExecutionDecisionAttributes where
  "testCompleteOversize = \<lparr>cw_Result = [1, 2, 3, 4, 5]\<rparr>"

definition testCancelOversize :: CancelWorkflowExecutionDecisionAttributes where
  "testCancelOversize = \<lparr>xw_Details = [1, 2, 3, 4, 5]\<rparr>"


definition testCancelActivity :: RequestCancelActivityTaskDecisionAttributes where
  "testCancelActivity = \<lparr>rca_ActivityId = Some ''nope''\<rparr>"


text \<open>
  The workflow of \<open>testState0\<close> with a running timer \<open>t\<close> whose fired event is the one
  buffered event.
\<close>
definition testBufferedState :: testState where
  "testBufferedState =
     testState0\<lparr>ts_buffered := True, ts_timers := [''t''], ts_firedTimers := [''t'']\<rparr>"


section \<open>Properties\<close>


lemmas step_defs = orReturn_def validateDecisionAttr_def blobSizeCheck_def handlerFailDecision_def
  IncCounter_def Warn_def multipleCompletionDecisions_def

subsection \<open>ScheduleActivity\<close>

text \<open>
  C4.  A ScheduleActivity decision that reaches the state mutator (target domain resolved,
  attributes valid, input within the size limit): when \<^verbatim>\<open>AddActivityTaskScheduledEvent\<close>
  succeeds, exactly one transfer task is appended, an Activity task whose DomainID is the
  resolved target domain id, whose TaskList is the task list name of the attributes and
  whose ScheduleID is the event id of the returned event; when it returns a BadRequest, the
  decision fails with the cause ScheduleActivityDuplicateID.
\<close>
theorem schedule_activity_transfer_task:
  assumes dom: "targetDomain env (ei_DomainID (GetExecutionInfo env (mutableState h)))
                  (nilsafe sa_Domain '''' (Some a)) ''Unable to schedule activity across domain ''
                = Inr targetDomainID"
    and valid: "validateActivityScheduleAttributes (attrValidator env)
                  (ei_DomainID (GetExecutionInfo env (mutableState h))) targetDomainID (Some a)
                  (ei_WorkflowTimeout (GetExecutionInfo env (mutableState h))) = None"
    and go: "\<not> stopProcessing h"
    and blob: "failWorkflowIfBlobSizeExceedsLimit env (sa_Input a)
                 ''ScheduleActivityTaskDecisionAttributes.Input exceeds size limit.''
                 (mutableState h) = ((False, None), ms1)"
    and mut: "ms_AddActivityTaskScheduledEvent (mutators env) (decisionTaskCompletedID h) (Some a)
                (impl ms1) = (res, s2)"
  shows "(\<forall>scheduleEvent ai. res = Inr (scheduleEvent, ai) \<longrightarrow>
            handleDecision env h (ScheduleActivityTask (Some a)) =
              (h\<lparr>metricsClient := metricsClient h @ [DecisionTypeScheduleActivityCounter],
                 mutableState := \<lparr>impl = s2, applied = applied ms1 @
                   [ActivityTaskScheduled (decisionTaskCompletedID h) (Some a) scheduleEvent]\<rparr>,
                 transferTasks := transferTasks h @
                   [ActivityTask targetDomainID (nilsafe tl_Name '''' (sa_TaskList a))
                      (he_EventId scheduleEvent)]\<rparr>, None))
       \<and> (\<forall>msg. res = Inl (BadRequestError msg) \<longrightarrow>
            handleDecision env h (ScheduleActivityTask (Some a)) =
              (h\<lparr>metricsClient := metricsClient h @ [DecisionTypeScheduleActivityCounter],
                 mutableState := ms1\<lparr>impl := s2\<rparr>,
                 failDecision := True,
                 failDecisionCause := Some ScheduleActivityDuplicateID,
                 failMessage := Some '''',
                 stopProcessing := True\<rparr>, None))"
  using assms
  by (simp add: handleDecisionScheduleActivity_def step_defs Let_def GetExecutionInfo_def
      AddActivityTaskScheduledEvent_def applyEvent_def)

theorem schedule_activity_transfer_task_witness:
  "transferTasks (fst (handleDecision testEnv (testHandler testState0)
      (ScheduleActivityTask (Some testActivity)))) = [ActivityTask ''dom'' ''tl'' 10]"
proof -
  let ?h = "testHandler testState0"
  let ?s2 = "testState0\<lparr>ts_activities := [(''a'', \<lparr>ai_ScheduleID = 10, ai_StartedID = - 23\<rparr>)],
                         ts_nextEventID := 11\<rparr>"
  let ?ev = "\<lparr>he_EventId = 10, he_WorkflowExecutionStartedEventAttributes = None\<rparr>"
  have dom: "targetDomain testEnv (ei_DomainID (GetExecutionInfo testEnv (mutableState ?h)))
               (nilsafe sa_Domain '''' (Some testActivity))
               ''Unable to schedule activity across domain '' = Inr ''dom''"
    by code_simp
  have valid: "validateActivityScheduleAttributes (attrValidator testEnv)
                 (ei_DomainID (GetExecutionInfo testEnv (mutableState ?h))) ''dom''
                 (Some testActivity)
                 (ei_WorkflowTimeout (GetExecutionInfo testEnv (mutableState ?h))) = None"
    by code_simp
  have go: "\<not> stopProcessing ?h"
    by code_simp
  have blob: "failWorkflowIfBlobSizeExceedsLimit testEnv (sa_Input testActivity)
                ''ScheduleActivityTaskDecisionAttributes.Input exceeds size limit.''
                (mutableState ?h) = ((False, None), \<lparr>impl = testState0, applied = []\<rparr>)"
    by code_simp
  have mut: "ms_AddActivityTaskScheduledEvent (mutators testEnv) (decisionTaskCompletedID ?h)
               (Some testActivity) (impl \<lparr>impl = testState0, applied = []\<rparr>)
             = (Inr (?ev, \<lparr>ai_ScheduleID = 10, ai_StartedID = - 23\<rparr>), ?s2)"
    by code_simp
  have tl: "nilsafe tl_Name '''' (sa_TaskList testActivity) = ''tl''"
    by code_simp
  have none: "transferTasks ?h = []"
    by code_simp
  from schedule_activity_transfer_task [OF dom valid go blob mut] tl none
  show ?thesis
    by simp
qed

subsection \<open>FailWorkflow: retry, cron and continue-as-new\<close>





subsection \<open>Batches\<close>

lemmas handler_defs = handleDecisionScheduleActivity_def handleDecisionRequestCancelActivity_def
  handleDecisionStartTimer_def handleDecisionCompleteWorkflow_def handleDecisionFailWorkflow_def
  handleDecisionCancelTimer_def handleDecisionCancelWorkflow_def
  handleDecisionRequestCancelExternalWorkflow_def handleDecisionRecordMarker_def
  handleDecisionContinueAsNewWorkflow_def handleDecisionStartChildWorkflow_def
  handleDecisionSignalExternalWorkflow_def retryCronContinueAsNew_def

lemma orReturn_validate:
  "orReturn (validateDecisionAttr env v cause h) rest =
     (case v of
        None \<Rightarrow> if stopProcessing h then (h, None) else rest h
      | Some e \<Rightarrow>
          if isBadRequestError e then handlerFailDecision cause (Error env e) h
          else (h, Some e))"
  by (simp add: orReturn_def validateDecisionAttr_def handlerFailDecision_def split: option.split)

lemma blobSizeCheck_beta:
  "blobSizeCheck env blob message h rest =
     (if snd (fst (failWorkflowIfBlobSizeExceedsLimit env blob message (mutableState h))) \<noteq> None
         \<or> fst (fst (failWorkflowIfBlobSizeExceedsLimit env blob message (mutableState h)))
      then (h\<lparr>mutableState :=
                snd (failWorkflowIfBlobSizeExceedsLimit env blob message (mutableState h)),
              stopProcessing := True\<rparr>,
            snd (fst (failWorkflowIfBlobSizeExceedsLimit env blob message (mutableState h))))
      else rest (h\<lparr>mutableState :=
                snd (failWorkflowIfBlobSizeExceedsLimit env blob message (mutableState h))\<rparr>))"
  by (simp add: blobSizeCheck_def split: prod.split)

lemmas run_simps = handler_defs orReturn_validate blobSizeCheck_beta handlerFailDecision_def
  IncCounter_def Warn_def multipleCompletionDecisions_def Let_def split_beta






subsection \<open>Tasks of a fail-decision verdict\<close>

lemma handleDecision_tasks:
  "timerTasks (fst (handleDecision env h d)) = timerTasks h
     \<and> (failDecision (fst (handleDecision env h d)) \<longrightarrow>
          failDecision h \<or> (stopProcessing (fst (handleDecision env h d))
             \<and> transferTasks (fst (handleDecision env h d)) = transferTasks h))"
  by (cases d) (simp_all add: run_simps split: sum.split option.split)

text \<open>
  C7 (as amended).  The handler never adds a timer task, so a batch ends with the timer
  tasks it started with (none for a new handler).  When a batch ends with a fail-decision
  verdict, the decision that failed added no transfer task: the transfer tasks of the
  handler are exactly those that the decisions before the failing one accumulated; they are
  not cleared.
\<close>
theorem fail_decision_keeps_earlier_tasks:
  "handleDecisions env h ds = (h', err) \<Longrightarrow> \<not> failDecision h \<Longrightarrow> failDecision h'
   \<Longrightarrow> timerTasks h' = timerTasks h
       \<and> (\<exists>pre d rest h1. ds = pre @ d # rest \<and> handleDecisions env h pre = (h1, None)
            \<and> \<not> failDecision h1
            \<and> handleDecision env h1 d = (h', err) \<and> transferTasks h' = transferTasks h1)"
proof (induction ds arbitrary: h)
  case Nil
  then show ?case by simp
next
  case (Cons d ds)
  obtain h2 e where step: "handleDecision env h d = (h2, e)"
    by (cases "handleDecision env h d")
  from handleDecision_tasks [of env h d] step Cons.prems(2)
  have timer: "timerTasks h2 = timerTasks h"
    and fail: "failDecision h2 \<longrightarrow> stopProcessing h2 \<and> transferTasks h2 = transferTasks h"
    by auto
  show ?case
  proof (cases "e \<noteq> None \<or> stopProcessing h2")
    case True
    with step Cons.prems(1) have eq: "h' = h2" "err = e" by auto
    with Cons.prems(3) fail have tasks: "transferTasks h' = transferTasks h" by simp
    have "d # ds = [] @ d # ds \<and> handleDecisions env h [] = (h, None) \<and> \<not> failDecision h
          \<and> handleDecision env h d = (h', err) \<and> transferTasks h' = transferTasks h"
      using step eq tasks Cons.prems(2) by simp
    then have "\<exists>pre d0 rest h1. d # ds = pre @ d0 # rest \<and> handleDecisions env h pre = (h1, None)
          \<and> \<not> failDecision h1
          \<and> handleDecision env h1 d0 = (h', err) \<and> transferTasks h' = transferTasks h1"
      by blast
    with timer eq show ?thesis by simp
  next
    case False
    then have e: "e = None" and go: "\<not> stopProcessing h2" by auto
    from fail go have nofail: "\<not> failDecision h2" by auto
    from step False Cons.prems(1) have run: "handleDecisions env h2 ds = (h', err)" by simp
    from Cons.IH [OF run nofail Cons.prems(3)]
    obtain pre d0 rest h1 where timer': "timerTasks h' = timerTasks h2"
      and split: "ds = pre @ d0 # rest"
      and pre: "handleDecisions env h2 pre = (h1, None)"
      and rest: "\<not> failDecision h1" "handleDecision env h1 d0 = (h', err)"
        "transferTasks h' = transferTasks h1"
      by blast
    from step e go pre have "handleDecisions env h (d # pre) = (h1, None)" by simp
    moreover from split have "d # ds = (d # pre) @ d0 # rest" by simp
    ultimately have "\<exists>pre d0 rest h1. d # ds = pre @ d0 # rest
          \<and> handleDecisions env h pre = (h1, None) \<and> \<not> failDecision h1
          \<and> handleDecision env h1 d0 = (h', err) \<and> transferTasks h' = transferTasks h1"
      using rest by blast
    with timer timer' show ?thesis by simp
  qed
qed

theorem fail_decision_keeps_earlier_tasks_witness:
  "timerTasks (fst (handleDecisions testEnv (testHandler testBufferedState)
      [ScheduleActivityTask (Some testActivity), CompleteWorkflowExecution (Some testComplete)]))
     = []
   \<and> (\<exists>pre d rest h1.
         [ScheduleActivityTask (Some testActivity), CompleteWorkflowExecution (Some testComplete)]
           = pre @ d # rest
         \<and> handleDecisions testEnv (testHandler testBufferedState) pre = (h1, None)
         \<and> transferTasks (fst (handleDecisions testEnv (testHandler testBufferedState)
              [ScheduleActivityTask (Some testActivity),
               CompleteWorkflowExecution (Some testComplete)])) = transferTasks h1)"
proof -
  let ?h = "testHandler testBufferedState"
  let ?ds = "[ScheduleActivityTask (Some testActivity), CompleteWorkflowExecution (Some testComplete)]"
  let ?r = "handleDecisions testEnv ?h ?ds"
  have run: "?r = (fst ?r, snd ?r)"
    by simp
  have before: "\<not> failDecision ?h"
    by code_simp
  have after: "failDecision (fst ?r)"
    by code_simp
  have none: "timerTasks ?h = []"
    by code_simp
  from fail_decision_keeps_earlier_tasks [OF run before after] none
  show ?thesis
    by auto
qed

theorem fail_decision_tasks_counterexample:
  "failDecision (fst (handleDecisions testEnv (testHandler testBufferedState)
      [ScheduleActivityTask (Some testActivity), CompleteWorkflowExecution (Some testComplete)]))
   \<and> transferTasks (fst (handleDecisions testEnv (testHandler testBufferedState)
      [ScheduleActivityTask (Some testActivity), CompleteWorkflowExecution (Some testComplete)]))
     = [ActivityTask ''dom'' ''tl'' 10]"
  by code_simp

subsection \<open>Request ids\<close>







subsection \<open>BadRequest errors\<close>

lemma invalid_attributes_fail_decision:
  "attrValidation env h d = Some (Some (BadRequestError msg))
   \<Longrightarrow> handleDecision env h d =
        (h\<lparr>metricsClient := metricsClient h @ decisionCounters d,
           failDecision := True,
           failDecisionCause := badAttributesCause d,
           failMessage := Some (Error env (BadRequestError msg)),
           stopProcessing := True\<rparr>, None)"
  by (cases d) (auto simp add: run_simps split: sum.splits if_splits)

lemma duplicate_activity_fail_decision:
  "attrValidation env h (ScheduleActivityTask (Some a)) = Some None \<Longrightarrow> \<not> stopProcessing h
   \<Longrightarrow> failWorkflowIfBlobSizeExceedsLimit env (sa_Input a)
         ''ScheduleActivityTaskDecisionAttributes.Input exceeds size limit.'' (mutableState h)
       = ((False, None), ms1)
   \<Longrightarrow> ms_AddActivityTaskScheduledEvent (mutators env) (decisionTaskCompletedID h) (Some a)
         (impl ms1) = (Inl (BadRequestError msg), s2)
   \<Longrightarrow> handleDecision env h (ScheduleActivityTask (Some a)) =
        (h\<lparr>metricsClient := metricsClient h @ [DecisionTypeScheduleActivityCounter],
           mutableState := ms1\<lparr>impl := s2\<rparr>,
           failDecision := True,
           failDecisionCause := Some ScheduleActivityDuplicateID,
           failMessage := Some '''',
           stopProcessing := True\<rparr>, None)"
  by (auto simp add: run_simps AddActivityTaskScheduledEvent_def applyEvent_def
      split: sum.splits)

lemma duplicate_timer_fail_decision:
  "attrValidation env h (StartTimer attr) = Some None \<Longrightarrow> \<not> stopProcessing h
   \<Longrightarrow> ms_AddTimerStartedEvent (mutators env) (decisionTaskCompletedID h) attr
         (impl (mutableState h)) = (Inl (BadRequestError msg), s2)
   \<Longrightarrow> handleDecision env h (StartTimer attr) =
        (h\<lparr>metricsClient := metricsClient h @ [DecisionTypeStartTimerCounter],
           mutableState := (mutableState h)\<lparr>impl := s2\<rparr>,
           failDecision := True,
           failDecisionCause := Some StartTimerDuplicateID,
           failMessage := Some '''',
           stopProcessing := True\<rparr>, None)"
  by (simp add: run_simps AddTimerStartedEvent_def applyEvent_def)

lemma unknown_activity_recorded:
  "attrValidation env h (RequestCancelActivityTask attr) = Some None \<Longrightarrow> \<not> stopProcessing h
   \<Longrightarrow> ms_AddActivityTaskCancelRequestedEvent (mutators env) (decisionTaskCompletedID h)
         (nilsafe rca_ActivityId '''' attr) (identity h) (impl (mutableState h))
       = (Inl (BadRequestError msg), s1)
   \<Longrightarrow> handleDecision env h (RequestCancelActivityTask attr) =
        (case AddRequestCancelActivityTaskFailedEvent env (decisionTaskCompletedID h)
                (nilsafe rca_ActivityId '''' attr) (activityCancellationMsgActivityIDUnknown env)
                ((mutableState h)\<lparr>impl := s1\<rparr>) of
           (res, ms) \<Rightarrow>
             (h\<lparr>metricsClient := metricsClient h @ [DecisionTypeCancelActivityCounter],
                mutableState := ms\<rparr>,
              case res of Inl err \<Rightarrow> Some err | Inr ev \<Rightarrow> None))"
  by (simp add: run_simps AddActivityTaskCancelRequestedEvent_def applyEvent_def
      split: prod.split)

lemma unknown_timer_recorded:
  "attrValidation env h (CancelTimer attr) = Some None \<Longrightarrow> \<not> stopProcessing h
   \<Longrightarrow> ms_AddTimerCanceledEvent (mutators env) (decisionTaskCompletedID h) attr (identity h)
         (impl (mutableState h)) = (Inl (BadRequestError msg), s1)
   \<Longrightarrow> handleDecision env h (CancelTimer attr) =
        (case AddCancelTimerFailedEvent env (decisionTaskCompletedID h) attr (identity h)
                ((mutableState h)\<lparr>impl := s1\<rparr>) of
           (res, ms) \<Rightarrow>
             (h\<lparr>metricsClient := metricsClient h @ [DecisionTypeCancelTimerCounter],
                mutableState := ms\<rparr>,
              case res of Inl err \<Rightarrow> Some err | Inr ev \<Rightarrow> None))"
  by (simp add: run_simps AddTimerCanceledEvent_def applyEvent_def split: prod.split)

text \<open>
  C3 (as amended).  A BadRequest of a validator, and a BadRequest of the state mutator of
  ScheduleActivity and of StartTimer (a duplicate id), becomes a fail-decision verdict: the
  handler sets the four fields \<^verbatim>\<open>failDecision\<close>, \<^verbatim>\<open>failDecisionCause\<close>, \<^verbatim>\<open>failMessage\<close> and
  \<^verbatim>\<open>stopProcessing\<close>, applies no event, and returns nil.  A BadRequest of
  \<^verbatim>\<open>AddActivityTaskCancelRequestedEvent\<close> or of \<^verbatim>\<open>AddTimerCanceledEvent\<close> does not fail the
  decision: the handler applies a RequestCancelActivityTaskFailed or CancelTimerFailed event
  and returns what that application returns.
\<close>
theorem bad_request_handling:
  "(attrValidation env h d = Some (Some (BadRequestError msg)) \<longrightarrow>
      handleDecision env h d =
        (h\<lparr>metricsClient := metricsClient h @ decisionCounters d,
           failDecision := True,
           failDecisionCause := badAttributesCause d,
           failMessage := Some (Error env (BadRequestError msg)),
           stopProcessing := True\<rparr>, None))
   \<and> (attrValidation env h (ScheduleActivityTask (Some a)) = Some None \<and> \<not> stopProcessing h
        \<and> failWorkflowIfBlobSizeExceedsLimit env (sa_Input a)
              ''ScheduleActivityTaskDecisionAttributes.Input exceeds size limit.''
              (mutableState h) = ((False, None), ms1)
        \<and> ms_AddActivityTaskScheduledEvent (mutators env) (decisionTaskCompletedID h) (Some a)
              (impl ms1) = (Inl (BadRequestError msg), s2) \<longrightarrow>
      handleDecision env h (ScheduleActivityTask (Some a)) =
        (h\<lparr>metricsClient := metricsClient h @ [DecisionTypeScheduleActivityCounter],
           mutableState := ms1\<lparr>impl := s2\<rparr>,
           failDecision := True,
           failDecisionCause := Some ScheduleActivityDuplicateID,
           failMessage := Some '''',
           stopProcessing := True\<rparr>, None))
   \<and> (attrValidation env h (StartTimer timerAttr) = Some None \<and> \<not> stopProcessing h
        \<and> ms_AddTimerStartedEvent (mutators env) (decisionTaskCompletedID h) timerAttr
              (impl (mutableState h)) = (Inl (BadRequestError msg), s2) \<longrightarrow>
      handleDecision env h (StartTimer timerAttr) =
        (h\<lparr>metricsClient := metricsClient h @ [DecisionTypeStartTimerCounter],
           mutableState := (mutableState h)\<lparr>impl := s2\<rparr>,
           failDecision := True,
           failDecisionCause := Some StartTimerDuplicateID,
           failMessage := Some '''',
           stopProcessing := True\<rparr>, None))
   \<and> (attrValidation env h (RequestCancelActivityTask cancelAttr) = Some None
        \<and> \<not> stopProcessing h
        \<and> ms_AddActivityTaskCancelRequestedEvent (mutators env) (decisionTaskCompletedID h)
              (nilsafe rca_ActivityId '''' cancelAttr) (identity h) (impl (mutableState h))
            = (Inl (BadRequestError msg), s2) \<longrightarrow>
      handleDecision env h (RequestCancelActivityTask cancelAttr) =
        (case AddRequestCancelActivityTaskFailedEvent env (decisionTaskCompletedID h)
                (nilsafe rca_ActivityId '''' cancelAttr)
                (activityCancellationMsgActivityIDUnknown env)
                ((mutableState h)\<lparr>impl := s2\<rparr>) of
           (res, ms) \<Rightarrow>
             (h\<lparr>metricsClient := metricsClient h @ [DecisionTypeCancelActivityCounter],
                mutableState := ms\<rparr>,
              case res of Inl err \<Rightarrow> Some err | Inr ev \<Rightarrow> None)))
   \<and> (attrValidation env h (CancelTimer cancelTimerAttr) = Some None \<and> \<not> stopProcessing h
        \<and> ms_AddTimerCanceledEvent (mutators env) (decisionTaskCompletedID h) cancelTimerAttr
              (identity h) (impl (mutableState h)) = (Inl (BadRequestError msg), s2) \<longrightarrow>
      handleDecision env h (CancelTimer cancelTimerAttr) =
        (case AddCancelTimerFailedEvent env (decisionTaskCompletedID h) cancelTimerAttr
                (identity h) ((mutableState h)\<lparr>impl := s2\<rparr>) of
           (res, ms) \<Rightarrow>
             (h\<lparr>metricsClient := metricsClient h @ [DecisionTypeCancelTimerCounter],
                mutableState := ms\<rparr>,
              case res of Inl err \<Rightarrow> Some err | Inr ev \<Rightarrow> None)))"
  using invalid_attributes_fail_decision [of env h d msg]
    duplicate_activity_fail_decision [of env h a ms1 msg s2]
    duplicate_timer_fail_decision [of env h timerAttr msg s2]
    unknown_activity_recorded [of env h cancelAttr msg s2]
    unknown_timer_recorded [of env h cancelTimerAttr msg s2]
  by blast

theorem bad_request_handling_witness:
  "handleDecision testEnv (testHandler testState0) (StartTimer None) =
     ((testHandler testState0)
        \<lparr>metricsClient := [DecisionTypeStartTimerCounter],
         failDecision := True,
         failDecisionCause := Some BadStartTimerAttributes,
         failMessage := Some ''BadRequestError{Message: StartTimer attributes are not set}'',
         stopProcessing := True\<rparr>, None)"
proof -
  let ?h = "testHandler testState0"
  have invalid: "attrValidation testEnv ?h (StartTimer None)
                   = Some (Some (BadRequestError ''StartTimer attributes are not set''))"
    by code_simp
  have facts: "metricsClient ?h = []"
    "Error testEnv (BadRequestError ''StartTimer attributes are not set'')
       = ''BadRequestError{Message: StartTimer attributes are not set}''"
    by code_simp+
  from bad_request_handling [of testEnv ?h "StartTimer None" "''StartTimer attributes are not set''"]
    invalid facts
  show ?thesis
    by simp
qed

theorem bad_request_counterexample:
  "ms_AddActivityTaskCancelRequestedEvent (mutators testEnv) 5 ''nope'' ''worker'' testState0
     = (Inl (BadRequestError ''unknown activity id''), testState0)
   \<and> \<not> failDecision (fst (handleDecision testEnv (testHandler testState0)
          (RequestCancelActivityTask (Some testCancelActivity))))
   \<and> \<not> stopProcessing (fst (handleDecision testEnv (testHandler testState0)
          (RequestCancelActivityTask (Some testCancelActivity))))
   \<and> applied (mutableState (fst (handleDecision testEnv (testHandler testState0)
          (RequestCancelActivityTask (Some testCancelActivity))))) =
       [RequestCancelActivityTaskFailed 5 ''nope'' ''ACTIVITY_ID_UNKNOWN''
          \<lparr>he_EventId = 10, he_WorkflowExecutionStartedEventAttributes = None\<rparr>]"
  by code_simp

subsection \<open>Oversize payloads\<close>

lemma specBlobSizeChecker_oversize:
  "errorLimit < length blob
   \<Longrightarrow> terminate PayloadSizeExceedsLimit message (impl m) = (Inr ev, s')
   \<Longrightarrow> specBlobSizeChecker warnLimit errorLimit terminate blob message m =
        ((True, None),
         \<lparr>impl = s',
          applied = applied m @ [WorkflowExecutionTerminated PayloadSizeExceedsLimit message ev]\<rparr>)"
  by (simp add: specBlobSizeChecker_def applyEvent_def)

lemma oversize_payload_step:
  "attrValidation env h d = Some None \<Longrightarrow> \<not> stopProcessing h
   \<Longrightarrow> blobPayload d = Some (blob, message)
   \<Longrightarrow> failWorkflowIfBlobSizeExceedsLimit env blob message (mutableState h) = ((True, None), m')
   \<Longrightarrow> handleDecision env h d =
        (h\<lparr>metricsClient := metricsClient h @ decisionCounters d,
           mutableState := m',
           stopProcessing := True\<rparr>, None)"
  by (cases d rule: blobPayload.cases)
    (auto simp add: run_simps split: sum.splits if_splits)

text \<open>
  C2 (as amended).  With the size checker of the specification: when the handler of a
  decision gets to its size check (ScheduleActivity, CompleteWorkflow, FailWorkflow,
  RecordMarker, ContinueAsNew, StartChildWorkflow and SignalExternalWorkflow have one, after
  the check for unhandled events of the terminal decisions and after the validation) with a
  payload above the error limit, and the termination is applied, then the handler sets
  \<^verbatim>\<open>stopProcessing\<close> and returns nil, without a fail-decision; the only event applied is
  WorkflowExecutionTerminated with the reason PayloadSizeExceedsLimit; no event of the
  decision and no transfer task is added, and the rest of the batch is not handled.
\<close>
theorem oversize_payload_terminates_workflow:
  assumes checker: "failWorkflowIfBlobSizeExceedsLimit env
                      = specBlobSizeChecker warnLimit errorLimit terminate"
    and valid: "attrValidation env h d = Some None"
    and go: "\<not> stopProcessing h"
    and payload: "blobPayload d = Some (blob, message)"
    and oversize: "errorLimit < length blob"
    and terminated: "terminate PayloadSizeExceedsLimit message (impl (mutableState h)) = (Inr ev, s')"
  shows "handleDecisions env h (d # rest) =
           (h\<lparr>metricsClient := metricsClient h @ decisionCounters d,
              mutableState :=
                \<lparr>impl = s',
                 applied = applied (mutableState h) @
                   [WorkflowExecutionTerminated PayloadSizeExceedsLimit message ev]\<rparr>,
              stopProcessing := True\<rparr>, None)"
proof -
  from checker specBlobSizeChecker_oversize [where terminate = terminate and m = "mutableState h"
      and warnLimit = warnLimit, OF oversize terminated]
  have "failWorkflowIfBlobSizeExceedsLimit env blob message (mutableState h) =
          ((True, None),
           \<lparr>impl = s',
            applied = applied (mutableState h) @
              [WorkflowExecutionTerminated PayloadSizeExceedsLimit message ev]\<rparr>)"
    by simp
  from oversize_payload_step [OF valid go payload this] show ?thesis
    by simp
qed

theorem oversize_payload_terminates_workflow_witness:
  "handleDecisions testEnv (testHandler testState0)
     (CompleteWorkflowExecution (Some testCompleteOversize) # [StartTimer None]) =
   ((testHandler testState0)
      \<lparr>metricsClient := [DecisionTypeCompleteWorkflowCounter],
       mutableState :=
         \<lparr>impl = testState0\<lparr>ts_running := False, ts_nextEventID := 11\<rparr>,
          applied =
            [WorkflowExecutionTerminated ''PayloadSizeExceedsLimit''
               ''CompleteWorkflowExecutionDecisionAttributes.Result exceeds size limit.''
               \<lparr>he_EventId = 10, he_WorkflowExecutionStartedEventAttributes = None\<rparr>]\<rparr>,
       stopProcessing := True\<rparr>, None)"
proof -
  let ?h = "testHandler testState0"
  let ?d = "CompleteWorkflowExecution (Some testCompleteOversize)"
  let ?msg = "''CompleteWorkflowExecutionDecisionAttributes.Result exceeds size limit.''"
  have checker: "failWorkflowIfBlobSizeExceedsLimit testEnv
                   = specBlobSizeChecker 2 4 (\<lambda>reason message. ts_close)"
    by (simp add: testEnv_def)
  have valid: "attrValidation testEnv ?h ?d = Some None"
    by code_simp
  have go: "\<not> stopProcessing ?h"
    by code_simp
  have payload: "blobPayload ?d = Some ([1, 2, 3, 4, 5], ?msg)"
    by code_simp
  have oversize: "4 < length [1, 2, 3, 4, 5 :: 8 word]"
    by simp
  have terminated: "(\<lambda>reason message. ts_close) PayloadSizeExceedsLimit ?msg (impl (mutableState ?h))
      = (Inr \<lparr>he_EventId = 10, he_WorkflowExecutionStartedEventAttributes = None\<rparr>,
         testState0\<lparr>ts_running := False, ts_nextEventID := 11\<rparr>)"
    by code_simp
  have facts: "metricsClient ?h = []" "applied (mutableState ?h) = []"
    "PayloadSizeExceedsLimit = ''PayloadSizeExceedsLimit''"
    by code_simp+
  from oversize_payload_terminates_workflow [where terminate = "\<lambda>reason message. ts_close"
      and h = "?h" and rest = "[StartTimer None]", OF checker valid go payload oversize terminated]
    facts
  show ?thesis
    by simp
qed

theorem oversize_payload_counterexample:
  "blobPayload (CompleteWorkflowExecution (Some testCompleteOversize)) =
     Some ([1, 2, 3, 4, 5],
           ''CompleteWorkflowExecutionDecisionAttributes.Result exceeds size limit.'')
   \<and> failDecision (fst (handleDecisions testEnv (testHandler testBufferedState)
        [CompleteWorkflowExecution (Some testCompleteOversize)]))
   \<and> failDecisionCause (fst (handleDecisions testEnv (testHandler testBufferedState)
        [CompleteWorkflowExecution (Some testCompleteOversize)])) = Some UnhandledDecision
   \<and> applied (mutableState (fst (handleDecisions testEnv (testHandler testBufferedState)
        [CompleteWorkflowExecution (Some testCompleteOversize)]))) = []
   \<and> IsWorkflowExecutionRunning testEnv (mutableState (fst (handleDecisions testEnv
        (testHandler testBufferedState) [CompleteWorkflowExecution (Some testCompleteOversize)])))"
  by code_simp

text \<open>
  C8.  The handler of CancelWorkflow does not call the size checker: in the test
  environment, with its error limit of four bytes, a CancelWorkflow decision with details
  of five bytes is applied as a WorkflowExecutionCanceled event and the handling goes on,
  where a CompleteWorkflow decision with a result of the same size terminates the workflow.
\<close>
theorem cancel_workflow_oversize_details_applied:
  "length (xw_Details testCancelOversize) = 5
   \<and> failWorkflowIfBlobSizeExceedsLimit testEnv = specBlobSizeChecker 2 4 (\<lambda>reason message. ts_close)
   \<and> handleDecision testEnv (testHandler testState0)
        (CancelWorkflowExecution (Some testCancelOversize)) =
      ((testHandler testState0)
         \<lparr>metricsClient := [DecisionTypeCancelWorkflowCounter],
          mutableState :=
            \<lparr>impl = testState0\<lparr>ts_running := False, ts_nextEventID := 11\<rparr>,
             applied =
               [WorkflowExecutionCanceled 5 (Some testCancelOversize)
                  \<lparr>he_EventId = 10, he_WorkflowExecutionStartedEventAttributes = None\<rparr>]\<rparr>\<rparr>,
       None)
   \<and> applied (mutableState (fst (handleDecision testEnv (testHandler testState0)
        (CompleteWorkflowExecution (Some testCompleteOversize))))) =
      [WorkflowExecutionTerminated ''PayloadSizeExceedsLimit''
         ''CompleteWorkflowExecutionDecisionAttributes.Result exceeds size limit.''
         \<lparr>he_EventId = 10, he_WorkflowExecutionStartedEventAttributes = None\<rparr>]"
proof -
  have 1: "length (xw_Details testCancelOversize) = 5"
    by code_simp
  have 2: "failWorkflowIfBlobSizeExceedsLimit testEnv
             = specBlobSizeChecker 2 4 (\<lambda>reason message. ts_close)"
    by (simp add: testEnv_def)
  have 3: "handleDecision testEnv (testHandler testState0)
        (CancelWorkflowExecution (Some testCancelOversize)) =
      ((testHandler testState0)
         \<lparr>metricsClient := [DecisionTypeCancelWorkflowCounter],
          mutableState :=
            \<lparr>impl = testState0\<lparr>ts_running := False, ts_nextEventID := 11\<rparr>,
             applied =
               [WorkflowExecutionCanceled 5 (Some testCancelOversize)
                  \<lparr>he_EventId = 10, he_WorkflowExecutionStartedEventAttributes = None\<rparr>]\<rparr>\<rparr>,
       None)"
    by code_simp
  have 4: "applied (mutableState (fst (handleDecision testEnv (testHandler testState0)
        (CompleteWorkflowExecution (Some testCompleteOversize))))) =
      [WorkflowExecutionTerminated ''PayloadSizeExceedsLimit''
         ''CompleteWorkflowExecutionDecisionAttributes.Result exceeds size limit.''
         \<lparr>he_EventId = 10, he_WorkflowExecutionStartedEventAttributes = None\<rparr>]"
    by code_simp
  from 1 2 3 4 show ?thesis
    by blast
qed

subsection \<open>At most one completion event\<close>
















end
